theory Spec2Isabelle
  imports Main
begin

section \<open>Text\<close>

text \<open>
  A Python \<open>str\<close> is modelled by the list of its UTF-8 bytes. The string methods the
  program uses (\<open>lower\<close>, \<open>strip\<close>, the regular expression class \<open>\s\<close>) are
  modelled on the ASCII range, where they agree with Python; bytes from 0x80 on are
  neither letters nor white space here.
\<close>

definition is_space :: "char \<Rightarrow> bool" where
  "is_space c = (c \<in> set [CHR 0x09, CHR 0x0A, CHR 0x0B, CHR 0x0C, CHR 0x0D,
                           CHR 0x1C, CHR 0x1D, CHR 0x1E, CHR 0x1F, CHR 0x20])"

definition lower_char :: "char \<Rightarrow> char" where
  "lower_char c =
     (case map_of (zip ''ABCDEFGHIJKLMNOPQRSTUVWXYZ'' ''abcdefghijklmnopqrstuvwxyz'') c of
        Some d \<Rightarrow> d
      | None \<Rightarrow> c)"

text \<open>\<open>str.lower()\<close>\<close>

definition lower :: "string \<Rightarrow> string" where
  "lower s = map lower_char s"

text \<open>\<open>str.strip()\<close>: white space is removed at both ends.\<close>

definition strip :: "string \<Rightarrow> string" where
  "strip s = rev (dropWhile is_space (rev (dropWhile is_space s)))"

section \<open>Time\<close>

text \<open>
  A \<open>datetime\<close> is the number of microseconds since the epoch, as an unbounded
  integer; \<open>timedelta(hours=1)\<close> is \<open>hour\<close>. The rendering \<open>isoformat()\<close> is
  not modelled: a field that holds it holds the instant.
\<close>

type_synonym time = int

definition hour :: int where
  "hour = 3600000000"

section \<open>The message handler\<close>

text \<open>
  A compiled regular expression, as far as the handler uses one: \<open>search p s\<close> is
  \<open>re.search(p, s) is not None\<close> and \<open>sub_ci p s\<close> is
  \<open>re.sub(p, '', s, flags=re.IGNORECASE)\<close>. The four fixed mention patterns are
  given below; the fifth one is the configured bot name, lowercased and read as a
  regular expression by the library, so it is a parameter of the handler: either the
  error \<open>re.error\<close> that compiling it raises, or its behaviour.
\<close>

record pattern =
  search :: "string \<Rightarrow> bool"
  sub_ci :: "string \<Rightarrow> string"

datatype error = ReError string

text \<open>\<open>str(e)\<close>\<close>

fun error_str :: "error \<Rightarrow> string" where
  "error_str (ReError msg) = msg"

record handler =
  allowed_contacts :: "string set"
  blocked_contacts :: "string set"
  respond_to_groups :: bool
  require_mention :: bool
  rate_limit_enabled :: bool
  max_messages_per_hour :: int
  message_timestamps :: "string \<rightharpoonup> time list"
  bot_name_pattern :: "error + pattern"

subsection \<open>Contact filter\<close>

definition is_blocked_contact :: "handler \<Rightarrow> string \<Rightarrow> bool" where
  "is_blocked_contact h sender = (sender \<in> blocked_contacts h)"

definition is_allowed_contact :: "handler \<Rightarrow> string \<Rightarrow> bool" where
  "is_allowed_contact h sender = (allowed_contacts h = {} \<or> sender \<in> allowed_contacts h)"

subsection \<open>Rate limiter\<close>

text \<open>
  \<open>_check_rate_limit\<close>, with the reading of the clock as an argument. The dictionary
  \<open>message_timestamps\<close> gets an empty list for a sender it does not know, the list is
  replaced by the comprehension that keeps \<open>timestamp > hour_ago\<close>, and \<open>now\<close> is
  appended to the stored list when the limit is not reached.
\<close>

definition timestamps_of :: "(string \<rightharpoonup> time list) \<Rightarrow> string \<Rightarrow> time list" where
  "timestamps_of ts sender = (case ts sender of Some w \<Rightarrow> w | None \<Rightarrow> [])"

definition check_rate_limit :: "handler \<Rightarrow> string \<Rightarrow> time \<Rightarrow> bool \<times> handler" where
  "check_rate_limit h sender now =
     (if \<not> rate_limit_enabled h then (True, h)
      else
        let hour_ago = now - hour;
            ts0 = (if sender \<notin> dom (message_timestamps h)
                   then (message_timestamps h)(sender \<mapsto> [])
                   else message_timestamps h);
            ts1 = ts0(sender \<mapsto> filter (\<lambda>timestamp. timestamp > hour_ago) (timestamps_of ts0 sender))
        in if int (length (timestamps_of ts1 sender)) \<ge> max_messages_per_hour h
           then (False, h\<lparr>message_timestamps := ts1\<rparr>)
           else (True, h\<lparr>message_timestamps := ts1(sender \<mapsto> timestamps_of ts1 sender @ [now])\<rparr>))"

text \<open>The window of a sender: the time stamps the handler holds for it.\<close>

definition window :: "handler \<Rightarrow> string \<Rightarrow> time list" where
  "window h sender = timestamps_of (message_timestamps h) sender"

subsection \<open>Regular expressions of the handler\<close>

definition starts_with :: "string \<Rightarrow> string \<Rightarrow> bool" where
  "starts_with p s = (take (length p) s = p)"

text \<open>\<open>re.search\<close> of a pattern without metacharacters: it occurs somewhere.\<close>

fun contains :: "string \<Rightarrow> string \<Rightarrow> bool" where
  "contains p [] = (p = [])"
| "contains p (c # cs) = (starts_with p (c # cs) \<or> contains p cs)"

text \<open>
  \<open>re.sub(p, '', s, flags=re.IGNORECASE)\<close> of a non-empty pattern without
  metacharacters: the occurrences are removed from left to right, letters compared
  without case. The counter is the number of characters of the current occurrence that
  are still to be skipped.
\<close>

fun remove_ci :: "string \<Rightarrow> nat \<Rightarrow> string \<Rightarrow> string" where
  "remove_ci p k [] = []"
| "remove_ci p (Suc k) (c # cs) = remove_ci p k cs"
| "remove_ci p 0 (c # cs) =
     (if p \<noteq> [] \<and> starts_with (lower p) (lower (c # cs))
      then remove_ci p (length p - 1) cs
      else c # remove_ci p 0 cs)"

definition literal_pattern :: "string \<Rightarrow> pattern" where
  "literal_pattern p = \<lparr>search = contains p, sub_ci = remove_ci p 0\<rparr>"

text \<open>The class \<open>[,:\s]\<close>.\<close>

definition is_separator :: "char \<Rightarrow> bool" where
  "is_separator c = (c = CHR '','' \<or> c = CHR '':'' \<or> is_space c)"

text \<open>
  The pattern \<open>^bot[,:\s]\<close>: without the flag MULTILINE it matches at the start of
  the text only, so there is at most one occurrence, of four characters.
\<close>

definition bot_prefix_pattern :: pattern where
  "bot_prefix_pattern =
     \<lparr>search = (\<lambda>s. starts_with ''bot'' s \<and> (case drop 3 s of [] \<Rightarrow> False | c # _ \<Rightarrow> is_separator c)),
      sub_ci = (\<lambda>s. if starts_with ''bot'' (lower (take 3 s))
                         \<and> (case drop 3 s of [] \<Rightarrow> False | c # _ \<Rightarrow> is_separator c)
                      then drop 4 s else s)\<rparr>"

text \<open>\<open>self.mention_patterns\<close>, in the order of the list.\<close>

definition mention_patterns :: "handler \<Rightarrow> (error + pattern) list" where
  "mention_patterns h =
     [Inr (literal_pattern ''@bot''),
      Inr (literal_pattern ''hey bot''),
      Inr (literal_pattern ''hi bot''),
      Inr bot_prefix_pattern,
      bot_name_pattern h]"

text \<open>
  \<open>any(re.search(pattern, content_lower) for pattern in ...)\<close>: the generator stops at
  the first pattern that matches, and a pattern that does not compile raises when its
  turn comes.
\<close>

fun any_search :: "(error + pattern) list \<Rightarrow> string \<Rightarrow> error + bool" where
  "any_search [] s = Inr False"
| "any_search (Inl e # ps) s = Inl e"
| "any_search (Inr p # ps) s = (if search p s then Inr True else any_search ps s)"

definition is_bot_mentioned :: "handler \<Rightarrow> string \<Rightarrow> error + bool" where
  "is_bot_mentioned h content = any_search (mention_patterns h) (lower content)"

subsection \<open>Cleaning\<close>

text \<open>The loop \<open>cleaned = re.sub(pattern, '', cleaned, flags=re.IGNORECASE).strip()\<close>.\<close>

fun sub_all :: "(error + pattern) list \<Rightarrow> string \<Rightarrow> error + string" where
  "sub_all [] cleaned = Inr cleaned"
| "sub_all (Inl e # ps) cleaned = Inl e"
| "sub_all (Inr p # ps) cleaned = sub_all ps (strip (sub_ci p cleaned))"

text \<open>
  \<open>re.sub(r'\s+', ' ', cleaned)\<close>: every maximal run of white space becomes one
  space. The flag says that the previous character was white space.
\<close>

fun collapse_spaces :: "bool \<Rightarrow> string \<Rightarrow> string" where
  "collapse_spaces in_run [] = []"
| "collapse_spaces in_run (c # cs) =
     (if is_space c
      then (if in_run then collapse_spaces True cs else CHR '' '' # collapse_spaces True cs)
      else c # collapse_spaces False cs)"

definition clean_message_content :: "handler \<Rightarrow> string \<Rightarrow> bool \<Rightarrow> error + string" where
  "clean_message_content h content is_group =
     (case (if is_group then sub_all (mention_patterns h) (strip content) else Inr (strip content)) of
        Inl e \<Rightarrow> Inl e
      | Inr cleaned \<Rightarrow> Inr (collapse_spaces False cleaned))"

subsection \<open>Command router\<close>

record command_result =
  cmd_content :: string
  cmd_response_type :: string
  cmd_clear_history :: "bool option"
  cmd_action :: "string option"

text \<open>The bytes the source file holds where an emoji was meant.\<close>

definition robot :: string where
  "robot = [CHR 0xC3, CHR 0xB0, CHR 0xC5, CHR 0xB8, CHR 0xC2, CHR 0xA4, CHR 0xE2, CHR 0x80, CHR 0x93]"

definition broom :: string where
  "broom = [CHR 0xC3, CHR 0xB0, CHR 0xC5, CHR 0xB8, CHR 0xC2, CHR 0xA7, CHR 0xC2, CHR 0xB9]"

definition bullet :: string where
  "bullet = [CHR 0xC3, CHR 0xA2, CHR 0xE2, CHR 0x82, CHR 0xAC, CHR 0xC2, CHR 0xA2]"

text \<open>The two characters \<open>\n\<close> of the help text: a backslash and the letter.\<close>

definition backslash_n :: string where
  "backslash_n = [CHR 0x5C, CHR ''n'']"

definition get_help_message :: string where
  "get_help_message =
     robot @ '' *AI Assistant Help*'' @ backslash_n @ backslash_n @
     ''*Available Commands:*'' @ backslash_n @
     bullet @ '' `help` - Show this help message'' @ backslash_n @
     bullet @ '' `status` - Check bot status'' @ backslash_n @
     bullet @ '' `clear` - Clear conversation history'' @ backslash_n @
     bullet @ '' `stop` - Stop responding to your messages'' @ backslash_n @
     bullet @ '' `start` - Resume responding'' @ backslash_n @ backslash_n @
     ''*Just send me any message and I'' @ [CHR 0x27] @ ''ll try to help!*''"

definition handle_command :: "string \<Rightarrow> string \<Rightarrow> command_result" where
  "handle_command command sender =
     (if command = ''help'' then
        \<lparr>cmd_content = get_help_message, cmd_response_type = ''text'',
         cmd_clear_history = None, cmd_action = None\<rparr>
      else if command = ''status'' then
        \<lparr>cmd_content = ''I'' @ [CHR 0x27] @ ''m online and ready to help! '' @ robot,
         cmd_response_type = ''text'', cmd_clear_history = None, cmd_action = None\<rparr>
      else if command = ''clear'' then
        \<lparr>cmd_content = ''Conversation history cleared! '' @ broom,
         cmd_response_type = ''text'', cmd_clear_history = Some True, cmd_action = None\<rparr>
      else if command = ''stop'' then
        \<lparr>cmd_content = ''I'' @ [CHR 0x27] @ ''ll stop responding to your messages. Send ''
            @ [CHR 0x27] @ ''start'' @ [CHR 0x27] @ '' to resume.'',
         cmd_response_type = ''text'', cmd_clear_history = None, cmd_action = Some ''pause''\<rparr>
      else if command = ''start'' then
        \<lparr>cmd_content = ''I'' @ [CHR 0x27] @ ''m back! How can I help you?'',
         cmd_response_type = ''text'', cmd_clear_history = None, cmd_action = Some ''resume''\<rparr>
      else
        \<lparr>cmd_content = ''Unknown command.'', cmd_response_type = ''text'',
         cmd_clear_history = None, cmd_action = None\<rparr>)"

text \<open>
  \<open>self.command_patterns\<close>: every pattern is \<open>^(?:a|b|c)$\<close>, kept as the list of
  its alternatives; a dictionary is read in the order its keys were written.
\<close>

definition command_patterns :: "(string \<times> string list) list" where
  "command_patterns =
     [(''help'', [''help'', ''/help'', ''?help'']),
      (''status'', [''status'', ''/status'']),
      (''clear'', [''clear'', ''/clear'', ''reset'']),
      (''stop'', [''stop'', ''/stop'', ''pause'']),
      (''start'', [''start'', ''/start'', ''resume''])]"

text \<open>
  \<open>re.match\<close> of \<open>^(?:a|b|c)$\<close>: the text is one of the alternatives, or one of
  them followed by a single line feed, since \<open>$\<close> also matches before a line feed
  that ends the text.
\<close>

definition re_match :: "string list \<Rightarrow> string \<Rightarrow> bool" where
  "re_match alternatives s = list_ex (\<lambda>a. s = a \<or> s = a @ [CHR 0x0A]) alternatives"

text \<open>The loop over the patterns: the first command whose pattern matches.\<close>

fun first_command :: "(string \<times> string list) list \<Rightarrow> string \<Rightarrow> string option" where
  "first_command [] content_lower = None"
| "first_command ((command, pat) # rest) content_lower =
     (if re_match pat content_lower then Some command else first_command rest content_lower)"

definition process_command :: "string \<Rightarrow> string \<Rightarrow> command_result option" where
  "process_command content sender =
     (let content_lower = strip (lower content)
      in case first_command command_patterns content_lower of
           Some command \<Rightarrow> Some (handle_command command sender)
         | None \<Rightarrow> None)"

subsection \<open>Admission pipeline\<close>

text \<open>
  An inbound record of the transport, with the four fields the handler reads. The
  transport delivers all four, so the defaults of \<open>message.get\<close> are not modelled.
\<close>

record message =
  msg_from :: string
  msg_body :: string
  msg_isGroupMsg :: bool
  msg_type :: string

record context_info =
  ctx_is_group :: bool
  ctx_sender :: string
  original_message :: string
  cleaned_message :: string
  ctx_timestamp :: time

text \<open>
  The dictionary \<open>response_data\<close>. The field \<open>rd_context\<close> (the key \<open>context\<close>) is \<open>None\<close> for the empty
  dictionary; \<open>clear_history\<close> and \<open>action\<close> are \<open>None\<close> when the key is absent.
\<close>

record response_data =
  content :: string
  rd_sender :: string
  rd_is_group :: bool
  rd_message_type :: string
  should_respond :: bool
  response_type :: string
  rd_context :: "context_info option"
  rd_timestamp :: time
  clear_history :: "bool option"
  action :: "string option"

text \<open>
  What \<open>process_message\<close> returns: \<open>response_data\<close>, or the dictionary of the
  \<open>except\<close> branch, \<open>{'content': '', 'should_respond': False, 'error': str(e)}\<close>.
\<close>

datatype result = Data response_data | ErrorResult string

fun get_should_respond :: "result \<Rightarrow> bool" where
  "get_should_respond (Data rd) = should_respond rd"
| "get_should_respond (ErrorResult e) = False"

fun get_content :: "result \<Rightarrow> string" where
  "get_content (Data rd) = content rd"
| "get_content (ErrorResult e) = []"

fun get_context :: "result \<Rightarrow> context_info option" where
  "get_context (Data rd) = rd_context rd"
| "get_context (ErrorResult e) = None"

fun get_error :: "result \<Rightarrow> string option" where
  "get_error (Data rd) = None"
| "get_error (ErrorResult e) = Some e"

text \<open>
  What the clock, the generative service and the transport do during the handling of
  one message: the three readings of \<open>datetime.now()\<close> in the handler (for the time
  stamp of the response, in the rate limiter, for the context), the two in the AI
  processor, and the answer of the OpenAI call to a list of (role, content) pairs,
  \<open>Inl\<close> when the call or the reading of its result raises.
\<close>

datatype api_error = ApiError string

record world =
  t_init :: time
  t_rate :: time
  t_ctx :: time
  t_user :: time
  t_assistant :: time
  chat_completion :: "(string \<times> string) list \<Rightarrow> api_error + string"

definition rate_limit_notice :: string where
  "rate_limit_notice =
     ''You'' @ [CHR 0x27] @ ''re sending messages too quickly. Please wait a moment before sending another message.''"

text \<open>\<open>response_data.update(command_result)\<close>\<close>

definition update_response :: "response_data \<Rightarrow> command_result \<Rightarrow> response_data" where
  "update_response rd cr =
     rd\<lparr>content := cmd_content cr,
        response_type := cmd_response_type cr,
        clear_history := (case cmd_clear_history cr of Some b \<Rightarrow> Some b | None \<Rightarrow> clear_history rd),
        action := (case cmd_action cr of Some a \<Rightarrow> Some a | None \<Rightarrow> action rd)\<rparr>"

text \<open>The dictionary \<open>response_data\<close> as the handler first builds it.\<close>

definition initial_response :: "message \<Rightarrow> world \<Rightarrow> response_data" where
  "initial_response message w =
     \<lparr>content = strip (msg_body message), rd_sender = msg_from message,
      rd_is_group = msg_isGroupMsg message, rd_message_type = msg_type message,
      should_respond = False, response_type = ''text'', rd_context = None,
      rd_timestamp = t_init w, clear_history = None, action = None\<rparr>"

text \<open>
  The body of the \<open>try\<close> block of \<open>process_message\<close>: \<open>Inl\<close> is an exception that
  leaves it. The handler is returned in both cases, since what the rate limiter stored
  before an exception stays stored.
\<close>

definition process_message_body ::
  "handler \<Rightarrow> message \<Rightarrow> world \<Rightarrow> (error + response_data) \<times> handler" where
  "process_message_body h message w =
     (let sender = msg_from message;
          content0 = strip (msg_body message);
          is_group = msg_isGroupMsg message;
          message_type = msg_type message;
          response_data = initial_response message w
      in if message_type \<noteq> ''text'' then (Inr response_data, h)
         else if is_blocked_contact h sender then (Inr response_data, h)
         else if allowed_contacts h \<noteq> {} \<and> \<not> is_allowed_contact h sender
           then (Inr response_data, h)
         else if is_group \<and> \<not> respond_to_groups h then (Inr response_data, h)
         else
           (case (if is_group \<and> require_mention h then is_bot_mentioned h content0
                  else Inr True) of
              Inl e \<Rightarrow> (Inl e, h)
            | Inr False \<Rightarrow> (Inr response_data, h)
            | Inr True \<Rightarrow>
               (case check_rate_limit h sender (t_rate w) of
                  (False, h') \<Rightarrow>
                    (Inr (response_data\<lparr>should_respond := True, content := rate_limit_notice\<rparr>), h')
                | (True, h') \<Rightarrow>
                   (case process_command content0 sender of
                      Some command_result \<Rightarrow>
                        (Inr ((update_response response_data command_result)
                                \<lparr>should_respond := True\<rparr>), h')
                    | None \<Rightarrow>
                       (case clean_message_content h' content0 is_group of
                          Inl e \<Rightarrow> (Inl e, h')
                        | Inr cleaned_content \<Rightarrow>
                            (Inr (response_data
                                   \<lparr>content := cleaned_content,
                                    rd_context := Some \<lparr>ctx_is_group = is_group, ctx_sender = sender,
                                                     original_message = content0,
                                                     cleaned_message = cleaned_content,
                                                     ctx_timestamp = t_ctx w\<rparr>,
                                    should_respond := True\<rparr>), h'))))))"

text \<open>\<open>process_message\<close>: the \<open>try\<close> block and its \<open>except Exception\<close>.\<close>

definition process_message :: "handler \<Rightarrow> message \<Rightarrow> world \<Rightarrow> result \<times> handler" where
  "process_message h message w =
     (case process_message_body h message w of
        (Inr response_data, h') \<Rightarrow> (Data response_data, h')
      | (Inl e, h') \<Rightarrow> (ErrorResult (error_str e), h'))"

section \<open>The AI processor\<close>

record turn =
  role :: string
  turn_content :: string
  turn_timestamp :: time

text \<open>
  The lists of turns are Python objects: \<open>_get_conversation_history\<close> hands out the
  stored list itself, and \<open>append\<close> changes it in place. So the processor holds a
  store of list objects, and the dictionary \<open>conversation_history\<close> maps a sender to
  the reference of its list.
\<close>

type_synonym ref = nat

record ai_processor =
  provider :: string
  system_prompt :: string
  max_history_length :: int
  conversation_history :: "string \<rightharpoonup> ref"
  store :: "ref \<rightharpoonup> turn list"
  next_ref :: ref

definition deref :: "ai_processor \<Rightarrow> ref \<Rightarrow> turn list" where
  "deref ai r = (case store ai r of Some l \<Rightarrow> l | None \<Rightarrow> [])"

text \<open>A new list object.\<close>

definition new_list :: "ai_processor \<Rightarrow> turn list \<Rightarrow> ref \<times> ai_processor" where
  "new_list ai l = (next_ref ai, ai\<lparr>store := (store ai)(next_ref ai \<mapsto> l), next_ref := Suc (next_ref ai)\<rparr>)"

text \<open>\<open>list.append\<close>, in place.\<close>

definition list_append :: "ai_processor \<Rightarrow> ref \<Rightarrow> turn \<Rightarrow> ai_processor" where
  "list_append ai r t = ai\<lparr>store := (store ai)(r \<mapsto> deref ai r @ [t])\<rparr>"

text \<open>The slice \<open>xs[i:]\<close> of Python, for any integer \<open>i\<close>.\<close>

definition slice_from :: "int \<Rightarrow> 'a list \<Rightarrow> 'a list" where
  "slice_from i xs =
     (let n = int (length xs);
          start = (if i < 0 then max 0 (n + i) else min i n)
      in drop (nat start) xs)"

text \<open>\<open>self.conversation_history.get(sender, [])\<close>\<close>

definition get_conversation_history :: "ai_processor \<Rightarrow> string \<Rightarrow> ref \<times> ai_processor" where
  "get_conversation_history ai sender =
     (case conversation_history ai sender of
        Some r \<Rightarrow> (r, ai)
      | None \<Rightarrow> new_list ai [])"

definition update_conversation_history :: "ai_processor \<Rightarrow> string \<Rightarrow> ref \<Rightarrow> ai_processor" where
  "update_conversation_history ai sender conversation =
     (if int (length (deref ai conversation)) > max_history_length ai
      then (case new_list ai (slice_from (- max_history_length ai) (deref ai conversation)) of
              (conversation', ai') \<Rightarrow>
                ai'\<lparr>conversation_history := (conversation_history ai')(sender \<mapsto> conversation')\<rparr>)
      else ai\<lparr>conversation_history := (conversation_history ai)(sender \<mapsto> conversation)\<rparr>)"

text \<open>The turns a sender's entry of \<open>conversation_history\<close> holds.\<close>

definition history_of :: "ai_processor \<Rightarrow> string \<Rightarrow> turn list" where
  "history_of ai sender =
     (case conversation_history ai sender of Some r \<Rightarrow> deref ai r | None \<Rightarrow> [])"

definition generate_with_openai ::
  "ai_processor \<Rightarrow> world \<Rightarrow> turn list \<Rightarrow> context_info option \<Rightarrow> string option" where
  "generate_with_openai ai w conversation ctx =
     (let messages = (''system'', system_prompt ai) #
            map (\<lambda>msg. (role msg, turn_content msg))
              (slice_from (- max_history_length ai) conversation)
      in case chat_completion w messages of
           Inl e \<Rightarrow> None
         | Inr reply \<Rightarrow> Some (strip reply))"

definition anthropic_reply :: string where
  "anthropic_reply = ''Sorry, I'' @ [CHR 0x27] @ ''m not available right now. Please try again later.''"

definition generate_with_anthropic :: "turn list \<Rightarrow> context_info option \<Rightarrow> string option" where
  "generate_with_anthropic conversation ctx = Some anthropic_reply"

definition local_model_reply :: string where
  "local_model_reply = ''Hello! I'' @ [CHR 0x27] @ ''m running on a local model. How can I help you?''"

definition generate_with_local_model :: "turn list \<Rightarrow> context_info option \<Rightarrow> string option" where
  "generate_with_local_model conversation ctx = Some local_model_reply"

definition generate_with_provider ::
  "ai_processor \<Rightarrow> world \<Rightarrow> turn list \<Rightarrow> context_info option \<Rightarrow> string option" where
  "generate_with_provider ai w conversation ctx =
     (if provider ai = ''openai'' then generate_with_openai ai w conversation ctx
      else if provider ai = ''anthropic'' then generate_with_anthropic conversation ctx
      else if provider ai = ''local'' then generate_with_local_model conversation ctx
      else None)"

text \<open>The two dictionaries \<open>generate_response\<close> appends to the conversation.\<close>

definition user_turn :: "world \<Rightarrow> string \<Rightarrow> turn" where
  "user_turn w msg = \<lparr>role = ''user'', turn_content = msg, turn_timestamp = t_user w\<rparr>"

definition assistant_turn :: "world \<Rightarrow> string \<Rightarrow> turn" where
  "assistant_turn w response =
     \<lparr>role = ''assistant'', turn_content = response, turn_timestamp = t_assistant w\<rparr>"

text \<open>
  \<open>generate_response\<close>. Nothing in its \<open>try\<close> block raises in this model (the
  providers catch their own exceptions), so the \<open>except\<close> branch has no counterpart.
  A response that is \<open>None\<close> or the empty string skips the \<open>if response:\<close> block, and
  the function returns \<open>None\<close>.
\<close>

definition generate_response ::
  "ai_processor \<Rightarrow> world \<Rightarrow> string \<Rightarrow> context_info option \<Rightarrow> string \<Rightarrow> string option \<times> ai_processor" where
  "generate_response ai w msg ctx sender =
     (case get_conversation_history ai sender of
        (conversation, ai1) \<Rightarrow>
          let ai2 = list_append ai1 conversation (user_turn w msg)
          in (case generate_with_provider ai2 w (deref ai2 conversation) ctx of
                None \<Rightarrow> (None, ai2)
              | Some response \<Rightarrow>
                  if response = [] then (None, ai2)
                  else
                    let ai3 = list_append ai2 conversation (assistant_turn w response)
                    in (Some response, update_conversation_history ai3 sender conversation)))"

section \<open>The orchestrator\<close>

text \<open>
  The transport, as far as \<open>send_message\<close> goes: the three kinds of client only log
  the message and report success; \<open>outbox\<close> collects what they were given.
\<close>

record whatsapp_client =
  is_connected_flag :: bool
  client_type :: string
  outbox :: "(string \<times> string) list"

definition send_message :: "whatsapp_client \<Rightarrow> string \<Rightarrow> string \<Rightarrow> bool \<times> whatsapp_client" where
  "send_message c to msg =
     (if \<not> is_connected_flag c then (False, c)
      else if client_type c = ''web'' \<or> client_type c = ''business_api''
              \<or> client_type c = ''unofficial''
        then (True, c\<lparr>outbox := outbox c @ [(to, msg)]\<rparr>)
      else (False, c))"

record bot =
  whatsapp_client :: whatsapp_client
  ai_processor :: ai_processor
  message_handler :: handler

text \<open>
  \<open>_handle_message\<close>. Neither \<open>process_message\<close> nor \<open>generate_response\<close> nor
  \<open>send_message\<close> raises, so the \<open>except\<close> branch has no counterpart. The test
  \<open>if ai_response:\<close> fails for \<open>None\<close> and for the empty string.
\<close>

definition handle_message :: "bot \<Rightarrow> world \<Rightarrow> message \<Rightarrow> bot" where
  "handle_message b w message =
     (case process_message (message_handler b) message w of
        (processed_message, mh) \<Rightarrow>
          if get_should_respond processed_message then
            (case generate_response (ai_processor b) w (get_content processed_message)
                    (get_context processed_message) (msg_from message) of
               (None, ai) \<Rightarrow> b\<lparr>ai_processor := ai, message_handler := mh\<rparr>
             | (Some ai_response, ai) \<Rightarrow>
                 if ai_response = [] then b\<lparr>ai_processor := ai, message_handler := mh\<rparr>
                 else
                   b\<lparr>whatsapp_client :=
                       snd (send_message (whatsapp_client b) (msg_from message) ai_response),
                     ai_processor := ai, message_handler := mh\<rparr>)
          else b\<lparr>message_handler := mh\<rparr>)"

text \<open>The messages of a run, one after the other.\<close>

fun handle_messages :: "bot \<Rightarrow> (world \<times> message) list \<Rightarrow> bot" where
  "handle_messages b [] = b"
| "handle_messages b ((w, message) # rest) = handle_messages (handle_message b w message) rest"

section \<open>Runs\<close>

text \<open>
  The handler alone over a sequence of messages, each with what the world does while it
  is handled: the results in order, and the handler at the end.
\<close>

fun process_messages :: "handler \<Rightarrow> (world \<times> message) list \<Rightarrow> result list \<times> handler" where
  "process_messages h [] = ([], h)"
| "process_messages h ((w, message) # rest) =
     (case process_message h message w of
        (r, h') \<Rightarrow> (case process_messages h' rest of (rs, h'') \<Rightarrow> (r # rs, h'')))"

text \<open>The AI processor alone over a sequence of messages of one sender.\<close>

fun generate_responses :: "ai_processor \<Rightarrow> (world \<times> string) list \<Rightarrow> string \<Rightarrow> ai_processor" where
  "generate_responses ai [] sender = ai"
| "generate_responses ai ((w, msg) # rest) sender =
     generate_responses (snd (generate_response ai w msg None sender)) rest sender"

section \<open>Derived notions\<close>

text \<open>A message passes the filters: none of the first five checks of the pipeline stops it.\<close>

definition passes_filters :: "handler \<Rightarrow> message \<Rightarrow> bool" where
  "passes_filters h m =
     (msg_type m = ''text'' \<and> msg_from m \<notin> blocked_contacts h
      \<and> (allowed_contacts h = {} \<or> msg_from m \<in> allowed_contacts h)
      \<and> (if msg_isGroupMsg m
          then respond_to_groups h
               \<and> (if require_mention h then is_bot_mentioned h (strip (msg_body m)) = Inr True else True)
          else True))"

text \<open>
  The invariant of the windows: none is longer than the hourly cap, and all are empty
  when the rate limiter is disabled.
\<close>

definition windows_ok :: "handler \<Rightarrow> bool" where
  "windows_ok h = (\<forall>s. length (window h s) \<le> nat (max_messages_per_hour h)
                      \<and> (rate_limit_enabled h \<or> window h s = []))"

section \<open>Concrete inputs\<close>

text \<open>
  The record \<open>simulate_incoming_message\<close> of the transport builds: a text message.
\<close>

definition incoming_message :: "string \<Rightarrow> string \<Rightarrow> bool \<Rightarrow> message" where
  "incoming_message sender body is_group =
     \<lparr>msg_from = sender, msg_body = body, msg_isGroupMsg = is_group, msg_type = ''text''\<rparr>"

text \<open>A world where every clock reading is \<open>t\<close> and the OpenAI call fails.\<close>

definition world_at :: "time \<Rightarrow> world" where
  "world_at t = \<lparr>t_init = t, t_rate = t, t_ctx = t, t_user = t, t_assistant = t,
     chat_completion = (\<lambda>messages. Inl (ApiError ''timeout''))\<rparr>"

text \<open>A handler with both contact lists, groups enabled and one message per hour.\<close>

definition strict_handler :: handler where
  "strict_handler = \<lparr>allowed_contacts = {''A'', ''B''}, blocked_contacts = {''B''},
     respond_to_groups = True, require_mention = True, rate_limit_enabled = True,
     max_messages_per_hour = 1, message_timestamps = Map.empty,
     bot_name_pattern = Inr (literal_pattern ''ai assistant'')\<rparr>"

text \<open>A handler that holds three time stamps of one sender, with two messages per hour.\<close>

definition busy_handler :: handler where
  "busy_handler = \<lparr>allowed_contacts = {}, blocked_contacts = {}, respond_to_groups = False,
     require_mention = True, rate_limit_enabled = True, max_messages_per_hour = 2,
     message_timestamps = [''A'' \<mapsto> [5, 6, 7]],
     bot_name_pattern = Inr (literal_pattern ''ai assistant'')\<rparr>"

text \<open>The handler, the AI processor and the bot with the defaults of the configuration.\<close>

definition default_handler :: handler where
  "default_handler = \<lparr>allowed_contacts = {}, blocked_contacts = {}, respond_to_groups = False,
     require_mention = True, rate_limit_enabled = True, max_messages_per_hour = 30,
     message_timestamps = Map.empty,
     bot_name_pattern = Inr (literal_pattern ''ai assistant'')\<rparr>"

definition fresh_ai :: "string \<Rightarrow> ai_processor" where
  "fresh_ai p = \<lparr>provider = p,
     system_prompt = ''You are a helpful AI assistant responding to WhatsApp messages. Be concise, friendly, and helpful in your responses.'',
     max_history_length = 10, conversation_history = Map.empty, store = Map.empty,
     next_ref = 0\<rparr>"

definition default_bot :: "string \<Rightarrow> bot" where
  "default_bot p = \<lparr>whatsapp_client = \<lparr>is_connected_flag = True, client_type = ''web'', outbox = []\<rparr>,
     ai_processor = fresh_ai p, message_handler = default_handler\<rparr>"

text \<open>A world where every clock reading is \<open>t\<close> and the OpenAI call returns \<open>reply\<close>.\<close>

definition world_replying :: "time \<Rightarrow> string \<Rightarrow> world" where
  "world_replying t reply = (world_at t)\<lparr>chat_completion := (\<lambda>messages. Inr reply)\<rparr>"

text \<open>A bot that keeps one turn per sender.\<close>

definition one_turn_bot :: bot where
  "one_turn_bot = (default_bot ''local'')\<lparr>ai_processor := (fresh_ai ''local'')\<lparr>max_history_length := 1\<rparr>\<rparr>"

text \<open>The scenario: message \<open>i\<close> from the sender A, \<open>i\<close> seconds after the start.\<close>

definition seconds :: "nat \<Rightarrow> time" where
  "seconds i = 1000000 * int i"

definition plain_body :: "nat \<Rightarrow> string" where
  "plain_body i = ''message '' @ [''0123456789'' ! (i div 10), ''0123456789'' ! (i mod 10)]"

definition scenario :: "nat \<Rightarrow> (world \<times> message) list" where
  "scenario n =
     map (\<lambda>i. (world_at (seconds i), incoming_message ''A'' (plain_body i) False)) [1..<Suc n]"

text \<open>What a result says: whether to respond, with what content, and whether it has a context.\<close>

definition summary :: "result \<Rightarrow> bool \<times> string \<times> bool" where
  "summary r = (get_should_respond r, get_content r, get_context r \<noteq> None)"

text \<open>A bot name that is not a regular expression: \<open>re.error\<close> for the name \<open>(\<close>.\<close>

definition broken_name_handler :: handler where
  "broken_name_handler = \<lparr>allowed_contacts = {}, blocked_contacts = {},
     respond_to_groups = True, require_mention = True, rate_limit_enabled = True,
     max_messages_per_hour = 30, message_timestamps = Map.empty,
     bot_name_pattern = Inl (ReError ''missing ), unterminated subpattern at position 0'')\<rparr>"

text \<open>What \<open>_handle_command\<close> returns for the command \<open>clear\<close>.\<close>

definition clear_result :: command_result where
  "clear_result = \<lparr>cmd_content = ''Conversation history cleared! '' @ broom,
     cmd_response_type = ''text'', cmd_clear_history = Some True, cmd_action = None\<rparr>"

section \<open>Properties of the rate limiter\<close>

lemma window_update [simp]:
  "window (h\<lparr>message_timestamps := (message_timestamps h)(s \<mapsto> w)\<rparr>) s' =
     (if s' = s then w else window h s')"
  by (simp add: window_def timestamps_of_def)

lemma check_rate_limit_disabled:
  "\<not> rate_limit_enabled h \<Longrightarrow> check_rate_limit h sender now = (True, h)"
  by (simp add: check_rate_limit_def)

lemma check_rate_limit_enabled:
  assumes "rate_limit_enabled h"
  shows "check_rate_limit h sender now =
     (let kept = filter (\<lambda>t. now - hour < t) (window h sender)
      in if max_messages_per_hour h \<le> int (length kept)
         then (False, h\<lparr>message_timestamps := (message_timestamps h)(sender \<mapsto> kept)\<rparr>)
         else (True, h\<lparr>message_timestamps := (message_timestamps h)(sender \<mapsto> kept @ [now])\<rparr>))"
  using assms
  by (auto simp: check_rate_limit_def window_def timestamps_of_def Let_def dom_def
      split: option.splits)

text \<open>
  C3. With the rate limiter disabled, a check returns true and changes nothing. With it
  enabled, the time stamps of the sender that are not strictly greater than
  \<open>now - hour\<close> are discarded (so one exactly at \<open>now - hour\<close> is gone); the check
  fails when at least \<open>max_messages_per_hour\<close> remain, and then \<open>now\<close> is not
  recorded; otherwise \<open>now\<close> is appended and the check succeeds. Nothing else of the
  handler changes.
\<close>

theorem check_rate_limit_algorithm:
  "(\<not> rate_limit_enabled h \<longrightarrow> check_rate_limit h sender now = (True, h)) \<and>
   (rate_limit_enabled h \<longrightarrow>
      (let kept = filter (\<lambda>t. now - hour < t) (window h sender);
           ok = fst (check_rate_limit h sender now);
           h' = snd (check_rate_limit h sender now)
       in ok = (int (length kept) < max_messages_per_hour h) \<and>
          window h' sender = (if ok then kept @ [now] else kept) \<and>
          now - hour \<notin> set (window h' sender) \<and>
          (\<forall>s. s \<noteq> sender \<longrightarrow> window h' s = window h s) \<and>
          h' = h\<lparr>message_timestamps := (message_timestamps h)(sender \<mapsto> window h' sender)\<rparr>))"
proof (intro conjI impI)
  assume "\<not> rate_limit_enabled h"
  then show "check_rate_limit h sender now = (True, h)"
    by (rule check_rate_limit_disabled)
next
  assume en: "rate_limit_enabled h"
  have hr: "now - hour \<noteq> now" by (simp add: hour_def)
  show "let kept = filter (\<lambda>t. now - hour < t) (window h sender);
           ok = fst (check_rate_limit h sender now);
           h' = snd (check_rate_limit h sender now)
       in ok = (int (length kept) < max_messages_per_hour h) \<and>
          window h' sender = (if ok then kept @ [now] else kept) \<and>
          now - hour \<notin> set (window h' sender) \<and>
          (\<forall>s. s \<noteq> sender \<longrightarrow> window h' s = window h s) \<and>
          h' = h\<lparr>message_timestamps := (message_timestamps h)(sender \<mapsto> window h' sender)\<rparr>"
    using hr by (auto simp: check_rate_limit_enabled [OF en] Let_def)
qed

theorem check_rate_limit_algorithm_witness:
  "fst (check_rate_limit busy_handler ''A'' (hour + 5)) = False \<and>
   window (snd (check_rate_limit busy_handler ''A'' (hour + 5))) ''A'' = [6, 7] \<and>
   fst (check_rate_limit busy_handler ''A'' (hour + 6)) = True \<and>
   window (snd (check_rate_limit busy_handler ''A'' (hour + 6))) ''A'' = [7, hour + 6] \<and>
   check_rate_limit (busy_handler\<lparr>rate_limit_enabled := False\<rparr>) ''A'' (hour + 5) = (True, busy_handler\<lparr>rate_limit_enabled := False\<rparr>)"
  using check_rate_limit_algorithm [of busy_handler "''A''" "hour + 5"]
    check_rate_limit_algorithm [of busy_handler "''A''" "hour + 6"]
    check_rate_limit_algorithm [of "busy_handler\<lparr>rate_limit_enabled := False\<rparr>" "''A''" "hour + 5"]
  by (simp add: busy_handler_def window_def timestamps_of_def Let_def)

section \<open>Properties of the admission pipeline\<close>

lemma body_nontext:
  "msg_type m \<noteq> ''text'' \<Longrightarrow> process_message_body h m w = (Inr (initial_response m w), h)"
  by (simp add: process_message_body_def Let_def)

lemma body_blocked:
  "msg_from m \<in> blocked_contacts h \<Longrightarrow> process_message_body h m w = (Inr (initial_response m w), h)"
  by (simp add: process_message_body_def Let_def is_blocked_contact_def)

lemma body_not_allowed:
  "allowed_contacts h \<noteq> {} \<Longrightarrow> msg_from m \<notin> allowed_contacts h \<Longrightarrow>
   process_message_body h m w = (Inr (initial_response m w), h)"
  by (simp add: process_message_body_def Let_def is_allowed_contact_def)

lemma body_groups_disabled:
  "msg_isGroupMsg m \<Longrightarrow> \<not> respond_to_groups h \<Longrightarrow>
   process_message_body h m w = (Inr (initial_response m w), h)"
  by (simp add: process_message_body_def Let_def)

lemma body_not_mentioned:
  "msg_isGroupMsg m \<Longrightarrow> require_mention h \<Longrightarrow>
   is_bot_mentioned h (strip (msg_body m)) = Inr False \<Longrightarrow>
   process_message_body h m w = (Inr (initial_response m w), h)"
  by (simp add: process_message_body_def Let_def)

lemma body_mention_fault:
  "msg_type m = ''text'' \<Longrightarrow> msg_from m \<notin> blocked_contacts h \<Longrightarrow>
   allowed_contacts h = {} \<or> msg_from m \<in> allowed_contacts h \<Longrightarrow>
   msg_isGroupMsg m \<Longrightarrow> respond_to_groups h \<Longrightarrow> require_mention h \<Longrightarrow>
   is_bot_mentioned h (strip (msg_body m)) = Inl e \<Longrightarrow>
   process_message_body h m w = (Inl e, h)"
  by (auto simp: process_message_body_def Let_def is_blocked_contact_def is_allowed_contact_def)

lemma body_passed:
  assumes "passes_filters h m"
  shows "process_message_body h m w =
     (case check_rate_limit h (msg_from m) (t_rate w) of
        (False, h') \<Rightarrow>
          (Inr ((initial_response m w)\<lparr>should_respond := True, content := rate_limit_notice\<rparr>), h')
      | (True, h') \<Rightarrow>
         (case process_command (strip (msg_body m)) (msg_from m) of
            Some command_result \<Rightarrow>
              (Inr ((update_response (initial_response m w) command_result)
                      \<lparr>should_respond := True\<rparr>), h')
          | None \<Rightarrow>
             (case clean_message_content h' (strip (msg_body m)) (msg_isGroupMsg m) of
                Inl e \<Rightarrow> (Inl e, h')
              | Inr cleaned_content \<Rightarrow>
                  (Inr ((initial_response m w)
                         \<lparr>content := cleaned_content,
                          rd_context := Some \<lparr>ctx_is_group = msg_isGroupMsg m, ctx_sender = msg_from m,
                                           original_message = strip (msg_body m),
                                           cleaned_message = cleaned_content,
                                           ctx_timestamp = t_ctx w\<rparr>,
                          should_respond := True\<rparr>), h'))))"
proof -
  have 1: "msg_type m = ''text''" "\<not> is_blocked_contact h (msg_from m)"
    "\<not> (allowed_contacts h \<noteq> {} \<and> \<not> is_allowed_contact h (msg_from m))"
    "\<not> (msg_isGroupMsg m \<and> \<not> respond_to_groups h)"
    using assms by (auto simp: passes_filters_def is_blocked_contact_def is_allowed_contact_def split: if_splits)
  have 2: "(if msg_isGroupMsg m \<and> require_mention h then is_bot_mentioned h (strip (msg_body m))
            else Inr True) = Inr True"
    using assms by (auto simp: passes_filters_def split: if_splits)
  show ?thesis
    unfolding process_message_body_def Let_def using 1
    by (simp only: 2 if_False if_True sum.case bool.case simp_thms)
qed

text \<open>The handler after a message: untouched, or as the rate limiter left it.\<close>

lemma body_handler:
  "snd (process_message_body h m w) = h \<or>
   snd (process_message_body h m w) = snd (check_rate_limit h (msg_from m) (t_rate w))"
proof (cases "passes_filters h m")
  case True
  show ?thesis
    by (cases "check_rate_limit h (msg_from m) (t_rate w)")
       (simp add: body_passed [OF True] split: option.splits sum.splits bool.splits)
next
  case False
  then consider "msg_type m \<noteq> ''text''" | "msg_from m \<in> blocked_contacts h"
    | "allowed_contacts h \<noteq> {}" "msg_from m \<notin> allowed_contacts h"
    | "msg_isGroupMsg m" "\<not> respond_to_groups h"
    | "msg_type m = ''text''" "msg_from m \<notin> blocked_contacts h"
      "allowed_contacts h = {} \<or> msg_from m \<in> allowed_contacts h"
      "msg_isGroupMsg m" "respond_to_groups h" "require_mention h"
      "is_bot_mentioned h (strip (msg_body m)) \<noteq> Inr True"
    unfolding passes_filters_def by (auto split: if_splits)
  then show ?thesis
  proof cases
    case 1 then show ?thesis by (simp add: body_nontext)
  next
    case 2 then show ?thesis by (simp add: body_blocked)
  next
    case 3 then show ?thesis by (simp add: body_not_allowed)
  next
    case 4 then show ?thesis by (simp add: body_groups_disabled)
  next
    case 5
    show ?thesis
    proof (cases "is_bot_mentioned h (strip (msg_body m))")
      case (Inl e)
      with 5 show ?thesis by (simp add: body_mention_fault)
    next
      case (Inr b)
      with 5 have "is_bot_mentioned h (strip (msg_body m)) = Inr False" by simp
      with 5 show ?thesis by (simp add: body_not_mentioned)
    qed
  qed
qed

lemma process_message_handler:
  "snd (process_message h m w) = h \<or>
   snd (process_message h m w) = snd (check_rate_limit h (msg_from m) (t_rate w))"
  using body_handler [of h m w]
  by (cases "process_message_body h m w") (auto simp: process_message_def split: sum.splits)

lemma check_rate_limit_config:
  "max_messages_per_hour (snd (check_rate_limit h s now)) = max_messages_per_hour h \<and>
   rate_limit_enabled (snd (check_rate_limit h s now)) = rate_limit_enabled h"
  by (simp add: check_rate_limit_def Let_def)

lemma check_rate_limit_windows_ok:
  assumes "windows_ok h"
  shows "windows_ok (snd (check_rate_limit h s now))"
proof (cases "rate_limit_enabled h")
  case False
  then show ?thesis using assms by (simp add: check_rate_limit_disabled)
next
  case True
  have le: "length (filter (\<lambda>t. now - hour < t) (window h s)) \<le> nat (max_messages_per_hour h)"
  proof -
    have "length (filter (\<lambda>t. now - hour < t) (window h s)) \<le> length (window h s)"
      by (rule length_filter_le)
    moreover have "length (window h s) \<le> nat (max_messages_per_hour h)"
      using assms unfolding windows_ok_def by blast
    ultimately show ?thesis by linarith
  qed
  show ?thesis
    using assms True le unfolding windows_ok_def
    by (auto simp: check_rate_limit_enabled [OF True] Let_def)
qed

lemma process_message_windows_ok:
  "windows_ok h \<Longrightarrow> windows_ok (snd (process_message h m w))"
  using process_message_handler [of h m w] check_rate_limit_windows_ok [of h]
  by auto

lemma process_message_config:
  "max_messages_per_hour (snd (process_message h m w)) = max_messages_per_hour h"
  using process_message_handler [of h m w] check_rate_limit_config [of h]
  by auto

lemma process_messages_windows_ok:
  "windows_ok h \<Longrightarrow> windows_ok (snd (process_messages h run))"
proof (induction h run rule: process_messages.induct)
  case (1 h)
  then show ?case by simp
next
  case (2 h w message rest)
  have "windows_ok (snd (process_message h message w))"
    using "2.prems" by (rule process_message_windows_ok)
  then show ?case
    using "2.IH" by (auto split: prod.splits)
qed

lemma process_messages_config:
  "max_messages_per_hour (snd (process_messages h run)) = max_messages_per_hour h"
proof (induction h run rule: process_messages.induct)
  case (1 h)
  then show ?case by simp
next
  case (2 h w message rest)
  then show ?case
    using process_message_config [of h message w] by (auto split: prod.splits)
qed

lemma fresh_windows_ok:
  "message_timestamps h = Map.empty \<Longrightarrow> windows_ok h"
  by (simp add: windows_ok_def window_def timestamps_of_def)

text \<open>
  C4. Start from a handler that holds no time stamps and let it process any sequence of
  messages. After any further check of the rate limiter, at any reading \<open>now\<close> of the
  clock, the window of the checked sender holds only time stamps later than
  \<open>now - hour\<close>, no window of any sender is longer than the cap (for a negative cap:
  every window is empty), and a check that fails leaves the sender's window as the
  pruning made it: \<open>now\<close> is not appended.
\<close>

theorem rate_limit_window_invariant:
  assumes "message_timestamps h0 = Map.empty"
  shows "let h = snd (process_messages h0 run);
             ok = fst (check_rate_limit h sender now);
             h' = snd (check_rate_limit h sender now)
         in (\<forall>t \<in> set (window h' sender). now - hour < t) \<and>
            (\<forall>s. length (window h' s) \<le> nat (max_messages_per_hour h0)) \<and>
            (\<not> ok \<longrightarrow> window h' sender = filter (\<lambda>t. now - hour < t) (window h sender))"
proof -
  define h where "h = snd (process_messages h0 run)"
  have ok: "windows_ok h"
    unfolding h_def using assms by (intro process_messages_windows_ok fresh_windows_ok)
  have cap: "max_messages_per_hour h = max_messages_per_hour h0"
    unfolding h_def by (rule process_messages_config)
  have ok': "windows_ok (snd (check_rate_limit h sender now))"
    using ok by (rule check_rate_limit_windows_ok)
  have a: "\<forall>t \<in> set (window (snd (check_rate_limit h sender now)) sender). now - hour < t"
  proof (cases "rate_limit_enabled h")
    case True
    then show ?thesis by (auto simp: check_rate_limit_enabled [OF True] Let_def hour_def)
  next
    case False
    then have "window h sender = []" using ok unfolding windows_ok_def by blast
    then show ?thesis using False by (simp add: check_rate_limit_disabled)
  qed
  have b: "\<forall>s. length (window (snd (check_rate_limit h sender now)) s)
      \<le> nat (max_messages_per_hour h0)"
    using ok' check_rate_limit_config [of h sender now] cap unfolding windows_ok_def by simp
  have c: "\<not> fst (check_rate_limit h sender now) \<longrightarrow>
      window (snd (check_rate_limit h sender now)) sender = filter (\<lambda>t. now - hour < t) (window h sender)"
  proof (cases "rate_limit_enabled h")
    case True
    then show ?thesis by (auto simp: check_rate_limit_enabled [OF True] Let_def)
  next
    case False
    then show ?thesis by (simp add: check_rate_limit_disabled)
  qed
  show ?thesis using a b c unfolding h_def Let_def by blast
qed

lemmas guard_eval = initial_response_def
  is_blocked_contact_def is_allowed_contact_def check_rate_limit_def timestamps_of_def
  process_command_def command_patterns_def re_match_def handle_command_def
  clean_message_content_def strip_def lower_def lower_char_def is_space_def
  is_bot_mentioned_def mention_patterns_def literal_pattern_def bot_prefix_pattern_def
  starts_with_def is_separator_def update_response_def hour_def Let_def
  incoming_message_def world_at_def

lemma strict_first_message:
  "process_message strict_handler (incoming_message ''A'' ''hi'' False) (world_at 10) =
     (Data ((initial_response (incoming_message ''A'' ''hi'' False) (world_at 10))
              \<lparr>content := ''hi'',
               rd_context := Some \<lparr>ctx_is_group = False, ctx_sender = ''A'',
                                original_message = ''hi'', cleaned_message = ''hi'',
                                ctx_timestamp = 10\<rparr>,
               should_respond := True\<rparr>),
      strict_handler\<lparr>message_timestamps := [''A'' \<mapsto> [10]]\<rparr>)"
  by (simp add: process_message_def process_message_body_def guard_eval strict_handler_def)

theorem rate_limit_window_invariant_witness:
  "message_timestamps strict_handler = Map.empty \<and>
   \<not> fst (check_rate_limit
       (snd (process_messages strict_handler [(world_at 10, incoming_message ''A'' ''hi'' False)]))
       ''A'' 20) \<and>
   window (snd (check_rate_limit
       (snd (process_messages strict_handler [(world_at 10, incoming_message ''A'' ''hi'' False)]))
       ''A'' 20)) ''A'' = [10] \<and>
   length (window (snd (check_rate_limit
       (snd (process_messages strict_handler [(world_at 10, incoming_message ''A'' ''hi'' False)]))
       ''A'' 20)) ''A'') \<le> nat (max_messages_per_hour strict_handler)"
proof -
  have h: "message_timestamps strict_handler = Map.empty"
    by (simp add: strict_handler_def)
  have run: "snd (process_messages strict_handler [(world_at 10, incoming_message ''A'' ''hi'' False)])
      = strict_handler\<lparr>message_timestamps := [''A'' \<mapsto> [10]]\<rparr>"
    by (simp add: strict_first_message)
  show ?thesis
    using h rate_limit_window_invariant [OF h, of "[(world_at 10, incoming_message ''A'' ''hi'' False)]" "''A''" 20]
    unfolding run
    by (simp add: check_rate_limit_def timestamps_of_def window_def hour_def strict_handler_def Let_def)
qed

lemma pm_stop:
  "process_message_body h m w = (Inr (initial_response m w), h) \<Longrightarrow>
   fst (process_message h m w) = Data (initial_response m w)
   \<and> \<not> get_should_respond (fst (process_message h m w))
   \<and> snd (process_message h m w) = h"
  by (simp add: process_message_def initial_response_def)

lemma passes_filtersI:
  "msg_type m = ''text'' \<Longrightarrow> msg_from m \<notin> blocked_contacts h \<Longrightarrow>
   \<not> (allowed_contacts h \<noteq> {} \<and> msg_from m \<notin> allowed_contacts h) \<Longrightarrow>
   \<not> (msg_isGroupMsg m \<and> \<not> respond_to_groups h) \<Longrightarrow>
   (msg_isGroupMsg m \<and> require_mention h \<longrightarrow> is_bot_mentioned h (strip (msg_body m)) = Inr True) \<Longrightarrow>
   passes_filters h m"
  by (auto simp: passes_filters_def)

lemma pm_passed_limited:
  assumes "passes_filters h m" and "\<not> fst (check_rate_limit h (msg_from m) (t_rate w))"
  shows "fst (process_message h m w) =
           Data ((initial_response m w)\<lparr>should_respond := True, content := rate_limit_notice\<rparr>)
         \<and> get_should_respond (fst (process_message h m w))
         \<and> snd (process_message h m w) = snd (check_rate_limit h (msg_from m) (t_rate w))"
  using assms(2)
  by (cases "check_rate_limit h (msg_from m) (t_rate w)")
     (simp add: process_message_def body_passed [OF assms(1)])

lemma pm_passed_admitted:
  assumes "passes_filters h m" and "fst (check_rate_limit h (msg_from m) (t_rate w))"
  shows "snd (process_message h m w) = snd (check_rate_limit h (msg_from m) (t_rate w)) \<and>
     (case process_command (strip (msg_body m)) (msg_from m) of
        Some cr \<Rightarrow>
          fst (process_message h m w) =
            Data ((update_response (initial_response m w) cr)\<lparr>should_respond := True\<rparr>)
          \<and> get_should_respond (fst (process_message h m w))
      | None \<Rightarrow>
         (case clean_message_content (snd (check_rate_limit h (msg_from m) (t_rate w)))
                 (strip (msg_body m)) (msg_isGroupMsg m) of
            Inr cleaned \<Rightarrow>
              fst (process_message h m w) =
                Data ((initial_response m w)
                       \<lparr>content := cleaned,
                        rd_context := Some \<lparr>ctx_is_group = msg_isGroupMsg m, ctx_sender = msg_from m,
                                         original_message = strip (msg_body m),
                                         cleaned_message = cleaned,
                                         ctx_timestamp = t_ctx w\<rparr>,
                        should_respond := True\<rparr>)
              \<and> get_should_respond (fst (process_message h m w))
          | Inl e \<Rightarrow> fst (process_message h m w) = ErrorResult (error_str e)))"
  using assms(2)
  by (cases "check_rate_limit h (msg_from m) (t_rate w)")
     (simp add: process_message_def body_passed [OF assms(1)] split: option.splits sum.splits)

text \<open>A direct message is cleaned without a look at the mention patterns.\<close>

lemma clean_direct:
  "clean_message_content h c False = Inr (collapse_spaces False (strip c))"
  by (simp add: clean_message_content_def)

text \<open>
  C1. The checks of \<open>process_message\<close> in their order. A message that is not text (1),
  from a blocked sender (2), from a sender outside a non-empty allow list (3), from a
  group while group responses are disabled (4), or from a group without the required
  mention (5) gets the initial response, with \<open>should_respond\<close> false, and leaves the
  handler as it was: the rate limiter is not reached. A message that passes these checks
  and finds the rate limit reached (6) gets the notice, with \<open>should_respond\<close> true.
  Otherwise a command (7) gets its canned response, and any other message (8) is cleaned
  and admitted with its context; an exception while cleaning gives the error result.
\<close>

theorem process_message_order:
  "let sender = msg_from m;
       body = strip (msg_body m);
       r = fst (process_message h m w);
       h' = snd (process_message h m w);
       c1 = (msg_type m \<noteq> ''text'');
       c2 = (sender \<in> blocked_contacts h);
       c3 = (allowed_contacts h \<noteq> {} \<and> sender \<notin> allowed_contacts h);
       c4 = (msg_isGroupMsg m \<and> \<not> respond_to_groups h);
       c5 = (msg_isGroupMsg m \<and> require_mention h \<and> is_bot_mentioned h body = Inr False);
       mentioned = (msg_isGroupMsg m \<and> require_mention h \<longrightarrow> is_bot_mentioned h body = Inr True);
       c6 = (\<not> fst (check_rate_limit h sender (t_rate w)));
       h6 = snd (check_rate_limit h sender (t_rate w));
       stopped = (r = Data (initial_response m w) \<and> \<not> get_should_respond r \<and> h' = h)
   in (c1 \<longrightarrow> stopped) \<and>
      (\<not> c1 \<and> c2 \<longrightarrow> stopped) \<and>
      (\<not> c1 \<and> \<not> c2 \<and> c3 \<longrightarrow> stopped) \<and>
      (\<not> c1 \<and> \<not> c2 \<and> \<not> c3 \<and> c4 \<longrightarrow> stopped) \<and>
      (\<not> c1 \<and> \<not> c2 \<and> \<not> c3 \<and> \<not> c4 \<and> c5 \<longrightarrow> stopped) \<and>
      (\<not> c1 \<and> \<not> c2 \<and> \<not> c3 \<and> \<not> c4 \<and> mentioned \<and> c6 \<longrightarrow>
         r = Data ((initial_response m w)\<lparr>should_respond := True, content := rate_limit_notice\<rparr>)
         \<and> get_should_respond r \<and> h' = h6) \<and>
      (\<not> c1 \<and> \<not> c2 \<and> \<not> c3 \<and> \<not> c4 \<and> mentioned \<and> \<not> c6 \<longrightarrow>
         h' = h6 \<and>
         (case process_command body sender of
            Some cr \<Rightarrow>
              r = Data ((update_response (initial_response m w) cr)\<lparr>should_respond := True\<rparr>)
              \<and> get_should_respond r
          | None \<Rightarrow>
             (case clean_message_content h6 body (msg_isGroupMsg m) of
                Inr cleaned \<Rightarrow>
                  r = Data ((initial_response m w)
                         \<lparr>content := cleaned,
                          rd_context := Some \<lparr>ctx_is_group = msg_isGroupMsg m, ctx_sender = sender,
                                           original_message = body,
                                           cleaned_message = cleaned,
                                           ctx_timestamp = t_ctx w\<rparr>,
                          should_respond := True\<rparr>)
                  \<and> get_should_respond r
              | Inl e \<Rightarrow> r = ErrorResult (error_str e))))"
proof -
  let ?sender = "msg_from m"
  let ?body = "strip (msg_body m)"
  let ?r = "fst (process_message h m w)"
  let ?h' = "snd (process_message h m w)"
  let ?c1 = "msg_type m \<noteq> ''text''"
  let ?c2 = "?sender \<in> blocked_contacts h"
  let ?c3 = "allowed_contacts h \<noteq> {} \<and> ?sender \<notin> allowed_contacts h"
  let ?c4 = "msg_isGroupMsg m \<and> \<not> respond_to_groups h"
  let ?c5 = "msg_isGroupMsg m \<and> require_mention h \<and> is_bot_mentioned h ?body = Inr False"
  let ?mentioned = "msg_isGroupMsg m \<and> require_mention h \<longrightarrow> is_bot_mentioned h ?body = Inr True"
  let ?c6 = "\<not> fst (check_rate_limit h ?sender (t_rate w))"
  let ?h6 = "snd (check_rate_limit h ?sender (t_rate w))"
  let ?stopped = "?r = Data (initial_response m w) \<and> \<not> get_should_respond ?r \<and> ?h' = h"
  have s1: "?c1 \<longrightarrow> ?stopped"
    using pm_stop [OF body_nontext] by blast
  have s2: "\<not> ?c1 \<and> ?c2 \<longrightarrow> ?stopped"
    using pm_stop [OF body_blocked] by blast
  have s3: "\<not> ?c1 \<and> \<not> ?c2 \<and> ?c3 \<longrightarrow> ?stopped"
    using pm_stop [OF body_not_allowed] by blast
  have s4: "\<not> ?c1 \<and> \<not> ?c2 \<and> \<not> ?c3 \<and> ?c4 \<longrightarrow> ?stopped"
    using pm_stop [OF body_groups_disabled] by blast
  have s5: "\<not> ?c1 \<and> \<not> ?c2 \<and> \<not> ?c3 \<and> \<not> ?c4 \<and> ?c5 \<longrightarrow> ?stopped"
    using pm_stop [OF body_not_mentioned] by blast
  have pass: "\<not> ?c1 \<and> \<not> ?c2 \<and> \<not> ?c3 \<and> \<not> ?c4 \<and> ?mentioned \<Longrightarrow> passes_filters h m"
    by (intro passes_filtersI) blast+
  have s6: "\<not> ?c1 \<and> \<not> ?c2 \<and> \<not> ?c3 \<and> \<not> ?c4 \<and> ?mentioned \<and> ?c6 \<longrightarrow>
      ?r = Data ((initial_response m w)\<lparr>should_respond := True, content := rate_limit_notice\<rparr>)
      \<and> get_should_respond ?r \<and> ?h' = ?h6"
    using pass pm_passed_limited [of h m w] by blast
  have s7: "\<not> ?c1 \<and> \<not> ?c2 \<and> \<not> ?c3 \<and> \<not> ?c4 \<and> ?mentioned \<and> \<not> ?c6 \<longrightarrow>
         ?h' = ?h6 \<and>
         (case process_command ?body ?sender of
            Some cr \<Rightarrow>
              ?r = Data ((update_response (initial_response m w) cr)\<lparr>should_respond := True\<rparr>)
              \<and> get_should_respond ?r
          | None \<Rightarrow>
             (case clean_message_content ?h6 ?body (msg_isGroupMsg m) of
                Inr cleaned \<Rightarrow>
                  ?r = Data ((initial_response m w)
                         \<lparr>content := cleaned,
                          rd_context := Some \<lparr>ctx_is_group = msg_isGroupMsg m, ctx_sender = ?sender,
                                           original_message = ?body,
                                           cleaned_message = cleaned,
                                           ctx_timestamp = t_ctx w\<rparr>,
                          should_respond := True\<rparr>)
                  \<and> get_should_respond ?r
              | Inl e \<Rightarrow> ?r = ErrorResult (error_str e)))"
    using pass pm_passed_admitted [of h m w] by blast
  show ?thesis
    unfolding Let_def by (intro conjI s1 s2 s3 s4 s5 s6 s7)
qed

theorem process_message_order_witness:
  "\<not> get_should_respond (fst (process_message strict_handler
        ((incoming_message ''A'' ''hi'' False)\<lparr>msg_type := ''image''\<rparr>) (world_at 10))) \<and>
   \<not> get_should_respond (fst (process_message strict_handler
        (incoming_message ''B'' ''hi'' False) (world_at 10))) \<and>
   \<not> get_should_respond (fst (process_message strict_handler
        (incoming_message ''C'' ''hi'' False) (world_at 10))) \<and>
   \<not> get_should_respond (fst (process_message (strict_handler\<lparr>respond_to_groups := False\<rparr>)
        (incoming_message ''A'' ''@bot hi'' True) (world_at 10))) \<and>
   \<not> get_should_respond (fst (process_message strict_handler
        (incoming_message ''A'' ''hi all'' True) (world_at 10))) \<and>
   get_should_respond (fst (process_message (strict_handler\<lparr>message_timestamps := [''A'' \<mapsto> [5]]\<rparr>)
        (incoming_message ''A'' ''hi'' False) (world_at 10))) \<and>
   get_content (fst (process_message (strict_handler\<lparr>message_timestamps := [''A'' \<mapsto> [5]]\<rparr>)
        (incoming_message ''A'' ''hi'' False) (world_at 10))) = rate_limit_notice \<and>
   get_content (fst (process_message strict_handler
        (incoming_message ''A'' ''/help'' False) (world_at 10))) = get_help_message \<and>
   get_content (fst (process_message strict_handler
        (incoming_message ''A'' ''  hello   there '' False) (world_at 10))) = ''hello there''"
proof -
  have 1: "\<not> get_should_respond (fst (process_message strict_handler
        ((incoming_message ''A'' ''hi'' False)\<lparr>msg_type := ''image''\<rparr>) (world_at 10)))"
    using process_message_order [of "(incoming_message ''A'' ''hi'' False)\<lparr>msg_type := ''image''\<rparr>"
        strict_handler "world_at 10", unfolded Let_def, THEN conjunct1]
    by (simp add: incoming_message_def initial_response_def)
  have 2: "\<not> get_should_respond (fst (process_message strict_handler
        (incoming_message ''B'' ''hi'' False) (world_at 10)))"
    using process_message_order [of "incoming_message ''B'' ''hi'' False" strict_handler "world_at 10",
        unfolded Let_def, THEN conjunct2, THEN conjunct1]
    by (simp add: incoming_message_def strict_handler_def initial_response_def)
  have 3: "\<not> get_should_respond (fst (process_message strict_handler
        (incoming_message ''C'' ''hi'' False) (world_at 10)))"
    using process_message_order [of "incoming_message ''C'' ''hi'' False" strict_handler "world_at 10",
        unfolded Let_def, THEN conjunct2, THEN conjunct2, THEN conjunct1]
    by (simp add: incoming_message_def strict_handler_def initial_response_def)
  have 4: "\<not> get_should_respond (fst (process_message (strict_handler\<lparr>respond_to_groups := False\<rparr>)
        (incoming_message ''A'' ''@bot hi'' True) (world_at 10)))"
    using process_message_order [of "incoming_message ''A'' ''@bot hi'' True"
        "strict_handler\<lparr>respond_to_groups := False\<rparr>" "world_at 10",
        unfolded Let_def, THEN conjunct2, THEN conjunct2, THEN conjunct2, THEN conjunct1]
    by (simp add: incoming_message_def strict_handler_def initial_response_def)
  have 5: "\<not> get_should_respond (fst (process_message strict_handler
        (incoming_message ''A'' ''hi all'' True) (world_at 10)))"
    using process_message_order [of "incoming_message ''A'' ''hi all'' True" strict_handler "world_at 10",
        unfolded Let_def, THEN conjunct2, THEN conjunct2, THEN conjunct2, THEN conjunct2, THEN conjunct1]
    by (simp add: guard_eval strict_handler_def)
  have 6: "get_should_respond (fst (process_message (strict_handler\<lparr>message_timestamps := [''A'' \<mapsto> [5]]\<rparr>)
        (incoming_message ''A'' ''hi'' False) (world_at 10))) \<and>
     get_content (fst (process_message (strict_handler\<lparr>message_timestamps := [''A'' \<mapsto> [5]]\<rparr>)
        (incoming_message ''A'' ''hi'' False) (world_at 10))) = rate_limit_notice"
    using process_message_order [of "incoming_message ''A'' ''hi'' False"
        "strict_handler\<lparr>message_timestamps := [''A'' \<mapsto> [5]]\<rparr>" "world_at 10",
        unfolded Let_def, THEN conjunct2, THEN conjunct2, THEN conjunct2, THEN conjunct2,
        THEN conjunct2, THEN conjunct1]
    by (simp add: guard_eval strict_handler_def)
  have 7: "get_content (fst (process_message strict_handler
        (incoming_message ''A'' ''/help'' False) (world_at 10))) = get_help_message"
    using process_message_order [of "incoming_message ''A'' ''/help'' False" strict_handler "world_at 10",
        unfolded Let_def, THEN conjunct2, THEN conjunct2, THEN conjunct2, THEN conjunct2,
        THEN conjunct2, THEN conjunct2]
    by (simp add: guard_eval strict_handler_def)
  have 8: "get_content (fst (process_message strict_handler
        (incoming_message ''A'' ''  hello   there '' False) (world_at 10))) = ''hello there''"
    using process_message_order [of "incoming_message ''A'' ''  hello   there '' False" strict_handler "world_at 10",
        unfolded Let_def, THEN conjunct2, THEN conjunct2, THEN conjunct2, THEN conjunct2,
        THEN conjunct2, THEN conjunct2]
    by (simp add: guard_eval strict_handler_def)
  show ?thesis using 1 2 3 4 5 6 7 8 by (intro conjI) simp_all
qed

text \<open>
  C7. A sender that is in the block list and in the allow list gets the initial response,
  with \<open>should_respond\<close> false, and the handler is untouched. With an empty allow list
  a sender that is not blocked passes both contact checks, and its direct text message
  is answered.
\<close>

theorem blocklist_precedence:
  "(msg_from m \<in> blocked_contacts h \<and> msg_from m \<in> allowed_contacts h \<longrightarrow>
      process_message h m w = (Data (initial_response m w), h)
      \<and> \<not> get_should_respond (fst (process_message h m w))) \<and>
   (allowed_contacts h = {} \<and> sender \<notin> blocked_contacts h \<longrightarrow>
      \<not> is_blocked_contact h sender \<and> is_allowed_contact h sender) \<and>
   (allowed_contacts h = {} \<and> msg_from m \<notin> blocked_contacts h
      \<and> msg_type m = ''text'' \<and> \<not> msg_isGroupMsg m \<longrightarrow>
      get_should_respond (fst (process_message h m w)))"
proof (intro conjI impI)
  assume "msg_from m \<in> blocked_contacts h \<and> msg_from m \<in> allowed_contacts h"
  then have "process_message_body h m w = (Inr (initial_response m w), h)"
    by (simp add: body_blocked)
  then show "process_message h m w = (Data (initial_response m w), h)"
    and "\<not> get_should_respond (fst (process_message h m w))"
    by (simp_all add: process_message_def initial_response_def)
next
  assume "allowed_contacts h = {} \<and> sender \<notin> blocked_contacts h"
  then show "\<not> is_blocked_contact h sender" and "is_allowed_contact h sender"
    by (simp_all add: is_blocked_contact_def is_allowed_contact_def)
next
  assume a: "allowed_contacts h = {} \<and> msg_from m \<notin> blocked_contacts h
      \<and> msg_type m = ''text'' \<and> \<not> msg_isGroupMsg m"
  then have p: "passes_filters h m" by (simp add: passes_filters_def)
  show "get_should_respond (fst (process_message h m w))"
  proof (cases "fst (check_rate_limit h (msg_from m) (t_rate w))")
    case False
    then show ?thesis using pm_passed_limited [OF p] by blast
  next
    case True
    show ?thesis
      using pm_passed_admitted [OF p True] a
      by (auto simp: clean_direct split: option.splits)
  qed
qed

theorem blocklist_precedence_witness:
  "''B'' \<in> blocked_contacts strict_handler \<and> ''B'' \<in> allowed_contacts strict_handler \<and>
   \<not> get_should_respond (fst (process_message strict_handler (incoming_message ''B'' ''hi'' False) (world_at 10))) \<and>
   allowed_contacts busy_handler = {} \<and> ''Z'' \<notin> blocked_contacts busy_handler \<and>
   is_allowed_contact busy_handler ''Z'' \<and>
   get_should_respond (fst (process_message busy_handler (incoming_message ''Z'' ''hi'' False) (world_at 10)))"
  using blocklist_precedence [of "incoming_message ''B'' ''hi'' False" strict_handler "world_at 10" "''B''"]
    blocklist_precedence [of "incoming_message ''Z'' ''hi'' False" busy_handler "world_at 10" "''Z''"]
  by (auto simp: incoming_message_def strict_handler_def busy_handler_def)


text \<open>
  C8. When an exception leaves the body of \<open>process_message\<close>, the function returns the
  dictionary of its \<open>except\<close> branch: empty content, \<open>should_respond\<close> false and the
  text of the exception under \<open>error\<close>; otherwise it returns the response data. The
  orchestrator then neither generates nor sends anything: only the handler changes.
\<close>

theorem process_message_catches:
  "(process_message_body h m w = (Inl e, h1) \<longrightarrow>
      process_message h m w = (ErrorResult (error_str e), h1)
      \<and> \<not> get_should_respond (fst (process_message h m w))
      \<and> get_error (fst (process_message h m w)) = Some (error_str e)
      \<and> get_content (fst (process_message h m w)) = []) \<and>
   (process_message_body h m w = (Inr rd, h1) \<longrightarrow>
      process_message h m w = (Data rd, h1)
      \<and> get_error (fst (process_message h m w)) = None) \<and>
   (fst (process_message_body (message_handler b) m w) = Inl e \<longrightarrow>
      handle_message b w m
        = b\<lparr>message_handler := snd (process_message_body (message_handler b) m w)\<rparr>)"
proof (intro conjI impI)
  assume "process_message_body h m w = (Inl e, h1)"
  then show "process_message h m w = (ErrorResult (error_str e), h1)"
    and "\<not> get_should_respond (fst (process_message h m w))"
    and "get_error (fst (process_message h m w)) = Some (error_str e)"
    and "get_content (fst (process_message h m w)) = []"
    by (simp_all add: process_message_def)
next
  assume "process_message_body h m w = (Inr rd, h1)"
  then show "process_message h m w = (Data rd, h1)"
    and "get_error (fst (process_message h m w)) = None"
    by (simp_all add: process_message_def)
next
  assume "fst (process_message_body (message_handler b) m w) = Inl e"
  then show "handle_message b w m
        = b\<lparr>message_handler := snd (process_message_body (message_handler b) m w)\<rparr>"
    by (cases "process_message_body (message_handler b) m w")
       (simp add: handle_message_def process_message_def)
qed

lemma broken_name_mention_fault:
  "process_message_body broken_name_handler (incoming_message ''A'' ''hello all'' True) (world_at 10)
     = (Inl (ReError ''missing ), unterminated subpattern at position 0''), broken_name_handler)"
  by (simp add: process_message_body_def guard_eval broken_name_handler_def)

lemma broken_name_clean_fault:
  "process_message_body broken_name_handler (incoming_message ''A'' ''@bot hello'' True) (world_at 10)
     = (Inl (ReError ''missing ), unterminated subpattern at position 0''),
        broken_name_handler\<lparr>message_timestamps := [''A'' \<mapsto> [10]]\<rparr>)"
  by (simp add: process_message_body_def guard_eval broken_name_handler_def)

theorem process_message_catches_witness:
  "process_message broken_name_handler (incoming_message ''A'' ''hello all'' True) (world_at 10)
     = (ErrorResult ''missing ), unterminated subpattern at position 0'', broken_name_handler) \<and>
   process_message broken_name_handler (incoming_message ''A'' ''@bot hello'' True) (world_at 10)
     = (ErrorResult ''missing ), unterminated subpattern at position 0'',
        broken_name_handler\<lparr>message_timestamps := [''A'' \<mapsto> [10]]\<rparr>) \<and>
   \<not> get_should_respond (fst (process_message broken_name_handler
        (incoming_message ''A'' ''@bot hello'' True) (world_at 10)))"
  using process_message_catches [of broken_name_handler "incoming_message ''A'' ''hello all'' True" "world_at 10"
      "ReError ''missing ), unterminated subpattern at position 0''" broken_name_handler]
    process_message_catches [of broken_name_handler "incoming_message ''A'' ''@bot hello'' True" "world_at 10"
      "ReError ''missing ), unterminated subpattern at position 0''"
      "broken_name_handler\<lparr>message_timestamps := [''A'' \<mapsto> [10]]\<rparr>"]
  by (simp add: broken_name_mention_fault broken_name_clean_fault)

section \<open>Properties of the command router\<close>

lemma strip_not_ending_in_space:
  "is_space c \<Longrightarrow> strip s \<noteq> a @ [c]"
proof
  assume sp: "is_space c" and eq: "strip s = a @ [c]"
  from eq have "dropWhile is_space (rev (dropWhile is_space s)) = c # rev a"
    unfolding strip_def by (metis rev.simps(2) rev_rev_ident rev_swap)
  then have "\<not> is_space c"
    by (metis hd_dropWhile list.sel(1) list.distinct(1))
  with sp show False by simp
qed

lemma strip_neq_trailing_space:
  "t \<noteq> [] \<Longrightarrow> is_space (last t) \<Longrightarrow> (strip s = t) = False"
  using strip_not_ending_in_space [of "last t" s "butlast t"] by simp

lemma process_command_exact:
  "process_command txt sender =
     (let body = strip (lower txt)
      in if body \<in> {''help'', ''/help'', ''?help''} then Some (handle_command ''help'' sender)
         else if body \<in> {''status'', ''/status''} then Some (handle_command ''status'' sender)
         else if body \<in> {''clear'', ''/clear'', ''reset''} then Some (handle_command ''clear'' sender)
         else if body \<in> {''stop'', ''/stop'', ''pause''} then Some (handle_command ''stop'' sender)
         else if body \<in> {''start'', ''/start'', ''resume''} then Some (handle_command ''start'' sender)
         else None)"
  by (simp add: process_command_def command_patterns_def re_match_def Let_def
      strip_neq_trailing_space is_space_def)

lemmas text_eval = strip_def lower_def lower_char_def is_space_def

text \<open>
  C6. A command is recognised when the whole message, lowercased and stripped, is one of
  the alternatives of a pattern, and only then; the patterns are tried in the order
  help, status, clear, stop, start, and the result is that of the one command found.
  The texts \<open>/clear\<close>, \<open>CLEAR\<close> and \<open>reset\<close> give the result of the command clear,
  with its reply and \<open>clear_history\<close> set; \<open>please clear\<close> is no command.
\<close>

theorem command_recognition:
  "process_command txt sender =
     (let body = strip (lower txt)
      in if body \<in> {''help'', ''/help'', ''?help''} then Some (handle_command ''help'' sender)
         else if body \<in> {''status'', ''/status''} then Some (handle_command ''status'' sender)
         else if body \<in> {''clear'', ''/clear'', ''reset''} then Some (handle_command ''clear'' sender)
         else if body \<in> {''stop'', ''/stop'', ''pause''} then Some (handle_command ''stop'' sender)
         else if body \<in> {''start'', ''/start'', ''resume''} then Some (handle_command ''start'' sender)
         else None) \<and>
   process_command ''/clear'' sender = Some clear_result \<and>
   process_command ''CLEAR'' sender = Some clear_result \<and>
   process_command ''reset'' sender = Some clear_result \<and>
   process_command ''please clear'' sender = None"
proof (intro conjI)
  show "process_command ''/clear'' sender = Some clear_result"
    by (simp add: process_command_exact text_eval handle_command_def clear_result_def)
  show "process_command ''CLEAR'' sender = Some clear_result"
    by (simp add: process_command_exact text_eval handle_command_def clear_result_def)
  show "process_command ''reset'' sender = Some clear_result"
    by (simp add: process_command_exact text_eval handle_command_def clear_result_def)
  show "process_command ''please clear'' sender = None"
    by (simp add: process_command_exact text_eval)
qed (rule process_command_exact)

section \<open>Properties of the AI processor\<close>

text \<open>The providers read the configuration of the processor only, and never the context.\<close>

lemma generate_with_provider_cong:
  "provider ai' = provider ai \<Longrightarrow> system_prompt ai' = system_prompt ai \<Longrightarrow>
   max_history_length ai' = max_history_length ai \<Longrightarrow>
   generate_with_provider ai' w c ctx' = generate_with_provider ai w c ctx"
  by (simp add: generate_with_provider_def generate_with_openai_def
      generate_with_anthropic_def generate_with_local_model_def)

text \<open>
  The conversation \<open>generate_response\<close> works on, after the user turn is appended: the
  stored turns of the sender and the new one, in the list object the store already
  holds for the sender, or in a new one.
\<close>

lemma conversation_after_user_turn:
  "(case get_conversation_history ai sender of
      (conversation, ai1) \<Rightarrow>
        deref (list_append ai1 conversation u) conversation = history_of ai sender @ [u])"
  by (simp add: get_conversation_history_def new_list_def list_append_def deref_def
      history_of_def split: option.splits)

lemma generate_response_result:
  "fst (generate_response ai w msg ctx sender) =
     (case generate_with_provider ai w (history_of ai sender @ [user_turn w msg]) ctx of
        None \<Rightarrow> None
      | Some response \<Rightarrow> if response = [] then None else Some response)"
proof -
  obtain conversation ai1 where g: "get_conversation_history ai sender = (conversation, ai1)"
    by (cases "get_conversation_history ai sender")
  have conf: "provider ai1 = provider ai" "system_prompt ai1 = system_prompt ai"
    "max_history_length ai1 = max_history_length ai"
    using g by (auto simp: get_conversation_history_def new_list_def split: option.splits)
  have d: "deref (list_append ai1 conversation (user_turn w msg)) conversation
      = history_of ai sender @ [user_turn w msg]"
    using conversation_after_user_turn [where ai = ai and sender = sender and u = "user_turn w msg"] g by simp
  have p: "generate_with_provider (list_append ai1 conversation (user_turn w msg)) w
       (history_of ai sender @ [user_turn w msg]) ctx
     = generate_with_provider ai w (history_of ai sender @ [user_turn w msg]) ctx"
    by (rule generate_with_provider_cong) (simp_all add: list_append_def conf)
  show ?thesis
    using d p
    by (simp add: generate_response_def g Let_def split: option.splits)
qed

text \<open>\<open>_update_conversation_history\<close> stores the list it is given, cut when it is too long.\<close>

lemma history_after_update:
  "history_of (update_conversation_history ai sender conversation) sender =
     (if int (length (deref ai conversation)) > max_history_length ai
      then slice_from (- max_history_length ai) (deref ai conversation)
      else deref ai conversation)"
  by (simp add: update_conversation_history_def new_list_def history_of_def deref_def)

text \<open>What is stored after a response: the conversation, cut by \<open>_update_conversation_history\<close>.\<close>

lemma generate_response_history_success:
  assumes "generate_with_provider ai w (history_of ai sender @ [user_turn w msg]) ctx = Some response"
    and "response \<noteq> []"
  shows "history_of (snd (generate_response ai w msg ctx sender)) sender =
     (let conversation = history_of ai sender @ [user_turn w msg, assistant_turn w response]
      in if int (length conversation) > max_history_length ai
         then slice_from (- max_history_length ai) conversation
         else conversation)"
proof -
  obtain conversation ai1 where g: "get_conversation_history ai sender = (conversation, ai1)"
    by (cases "get_conversation_history ai sender")
  have conf: "provider ai1 = provider ai" "system_prompt ai1 = system_prompt ai"
    "max_history_length ai1 = max_history_length ai"
    using g by (auto simp: get_conversation_history_def new_list_def split: option.splits)
  define ai2 where "ai2 = list_append ai1 conversation (user_turn w msg)"
  have d: "deref ai2 conversation = history_of ai sender @ [user_turn w msg]"
    unfolding ai2_def
    using conversation_after_user_turn [where ai = ai and sender = sender and u = "user_turn w msg"] g by simp
  have p: "generate_with_provider ai2 w (history_of ai sender @ [user_turn w msg]) ctx = Some response"
    using assms(1) generate_with_provider_cong [where ai' = ai2 and ai = ai and w = w and ctx = ctx and ctx' = ctx]
    by (simp add: ai2_def list_append_def conf)
  define ai3 where "ai3 = list_append ai2 conversation (assistant_turn w response)"
  have d3: "deref ai3 conversation
      = history_of ai sender @ [user_turn w msg, assistant_turn w response]"
    unfolding ai3_def using d by (simp add: list_append_def deref_def)
  have cap3: "max_history_length ai3 = max_history_length ai"
    by (simp add: ai3_def ai2_def list_append_def conf)
  have res: "snd (generate_response ai w msg ctx sender)
      = update_conversation_history ai3 sender conversation"
    using p d assms(2)
    by (simp add: generate_response_def g Let_def ai2_def [symmetric] ai3_def [symmetric])
  show ?thesis
    unfolding res history_after_update d3 cap3 by (simp add: Let_def)
qed

text \<open>
  What is stored when there is no response: nothing for a sender without an entry, but
  for a sender with an entry the user turn, which was appended to the stored list
  itself.
\<close>

lemma generate_response_history_failure:
  assumes "fst (generate_response ai w msg ctx sender) = None"
  shows "history_of (snd (generate_response ai w msg ctx sender)) sender =
     (if conversation_history ai sender = None then []
      else history_of ai sender @ [user_turn w msg])"
proof -
  obtain conversation ai1 where g: "get_conversation_history ai sender = (conversation, ai1)"
    by (cases "get_conversation_history ai sender")
  define ai2 where "ai2 = list_append ai1 conversation (user_turn w msg)"
  have res: "snd (generate_response ai w msg ctx sender) = ai2"
    using assms
    by (auto simp: generate_response_def g Let_def ai2_def [symmetric]
        split: option.splits if_splits)
  show ?thesis
    unfolding res ai2_def using g
    by (auto simp: get_conversation_history_def new_list_def list_append_def history_of_def
        deref_def split: option.splits)
qed

text \<open>A list cut to its last \<open>cap\<close> elements still ends with its last two, for \<open>cap\<close> from 2.\<close>

lemma cut_ends_with:
  assumes "2 \<le> cap"
  shows "let conversation = old @ [u, a];
             H = (if int (length conversation) > cap then slice_from (- cap) conversation
                  else conversation)
         in drop (length H - 2) H = [u, a]"
proof -
  have "int (length old) + 2 > cap \<Longrightarrow> nat (int (length old) + 2 - cap) \<le> length old"
    using assms by linarith
  then show ?thesis
    using assms by (auto simp: slice_from_def Let_def max_def)
qed

lemma cut_length:
  assumes "1 \<le> cap"
  shows "int (length (if int (length conversation) > cap then slice_from (- cap) conversation
                  else conversation)) \<le> cap"
  using assms by (auto simp: slice_from_def Let_def max_def)

lemma generate_response_config:
  "provider (snd (generate_response ai w msg ctx sender)) = provider ai \<and>
   system_prompt (snd (generate_response ai w msg ctx sender)) = system_prompt ai \<and>
   max_history_length (snd (generate_response ai w msg ctx sender)) = max_history_length ai"
  by (auto simp: generate_response_def get_conversation_history_def new_list_def list_append_def
      update_conversation_history_def Let_def split: option.splits prod.splits)

text \<open>
  After a response the stored history is within the configured length, when that is at
  least 1, and it is what is left of the conversation when its oldest turns are dropped.
\<close>

lemma answered_history_within_cap:
  assumes "1 \<le> max_history_length ai"
    and "generate_with_provider ai w (history_of ai sender @ [user_turn w msg]) ctx = Some response"
    and "response \<noteq> []"
  shows "int (length (history_of (snd (generate_response ai w msg ctx sender)) sender))
           \<le> max_history_length ai
         \<and> (\<exists>k. history_of (snd (generate_response ai w msg ctx sender)) sender
                 = drop k (history_of ai sender @ [user_turn w msg, assistant_turn w response]))"
proof -
  let ?c = "history_of ai sender @ [user_turn w msg, assistant_turn w response]"
  have H: "history_of (snd (generate_response ai w msg ctx sender)) sender =
      (if int (length ?c) > max_history_length ai
       then slice_from (- max_history_length ai) ?c else ?c)"
    using generate_response_history_success [OF assms(2) assms(3)] by (simp add: Let_def)
  have "\<exists>k. (if int (length ?c) > max_history_length ai
       then slice_from (- max_history_length ai) ?c else ?c) = drop k ?c"
  proof (cases "int (length ?c) > max_history_length ai")
    case True
    then show ?thesis unfolding slice_from_def Let_def by auto
  next
    case False
    then have "(if int (length ?c) > max_history_length ai
       then slice_from (- max_history_length ai) ?c else ?c) = drop 0 ?c" by simp
    then show ?thesis by blast
  qed
  then show ?thesis
    unfolding H using cut_length [OF assms(1), of ?c] by blast
qed

text \<open>With \<open>max_history_length = 0\<close> the slice \<open>conversation[-0:]\<close> is the whole list.\<close>

lemma slice_from_zero: "slice_from (- 0) xs = xs"
  by (simp add: slice_from_def)

section \<open>Properties of the orchestrator\<close>

lemma handle_message_handler:
  "message_handler (handle_message b w m) = snd (process_message (message_handler b) m w)"
  by (simp add: handle_message_def split: prod.splits option.splits)

lemma handle_message_silent:
  "\<not> get_should_respond (fst (process_message (message_handler b) m w)) \<Longrightarrow>
   handle_message b w m = b\<lparr>message_handler := snd (process_message (message_handler b) m w)\<rparr>"
  by (cases "process_message (message_handler b) m w") (simp add: handle_message_def)

lemma handle_message_responding:
  assumes "get_should_respond (fst (process_message (message_handler b) m w))"
  shows "ai_processor (handle_message b w m) =
      snd (generate_response (ai_processor b) w
             (get_content (fst (process_message (message_handler b) m w)))
             (get_context (fst (process_message (message_handler b) m w))) (msg_from m))"
    and "whatsapp_client (handle_message b w m) =
      (case fst (generate_response (ai_processor b) w
             (get_content (fst (process_message (message_handler b) m w)))
             (get_context (fst (process_message (message_handler b) m w))) (msg_from m)) of
         None \<Rightarrow> whatsapp_client b
       | Some ai_response \<Rightarrow>
           if ai_response = [] then whatsapp_client b
           else snd (send_message (whatsapp_client b) (msg_from m) ai_response))"
  using assms by (auto simp: handle_message_def split: prod.splits option.splits)

text \<open>
  The stored history after an admitted message that the provider answers: the old
  history, the user turn with the cleaned content and the assistant turn with the
  response, cut to the configured length.
\<close>

lemma handle_message_admitted_history:
  assumes "passes_filters (message_handler b) m"
    and "fst (check_rate_limit (message_handler b) (msg_from m) (t_rate w))"
    and "process_command (strip (msg_body m)) (msg_from m) = None"
    and "clean_message_content (snd (check_rate_limit (message_handler b) (msg_from m) (t_rate w)))
           (strip (msg_body m)) (msg_isGroupMsg m) = Inr cleaned"
    and "generate_with_provider (ai_processor b) w
           (history_of (ai_processor b) (msg_from m) @ [user_turn w cleaned])
           (get_context (fst (process_message (message_handler b) m w))) = Some reply"
    and "reply \<noteq> []"
  shows "history_of (ai_processor (handle_message b w m)) (msg_from m) =
     (let conversation = history_of (ai_processor b) (msg_from m)
            @ [user_turn w cleaned, assistant_turn w reply]
      in if int (length conversation) > max_history_length (ai_processor b)
         then slice_from (- max_history_length (ai_processor b)) conversation
         else conversation)"
proof -
  let ?r = "fst (process_message (message_handler b) m w)"
  have r: "get_should_respond ?r" "get_content ?r = cleaned"
    using pm_passed_admitted [OF assms(1) assms(2)] assms(3) assms(4) by auto
  have ai: "ai_processor (handle_message b w m) =
      snd (generate_response (ai_processor b) w cleaned (get_context ?r) (msg_from m))"
    using handle_message_responding(1) [OF r(1)] r(2) by simp
  show ?thesis
    unfolding ai using assms(5) assms(6) by (rule generate_response_history_success)
qed

text \<open>
  C9, for a history of at least two turns. Let a message pass the filters and the rate
  limiter, be no command, and be cleaned to \<open>cleaned\<close>; let the provider answer the
  conversation with the non-empty text \<open>reply\<close>. Then, provided
  \<open>max_history_length\<close> is at least 2, the stored history of the sender ends with the
  user turn that holds \<open>cleaned\<close>, followed by the assistant turn that holds \<open>reply\<close>.
\<close>

theorem round_trip_history:
  assumes "2 \<le> max_history_length (ai_processor b)"
    and "passes_filters (message_handler b) m"
    and "fst (check_rate_limit (message_handler b) (msg_from m) (t_rate w))"
    and "process_command (strip (msg_body m)) (msg_from m) = None"
    and "clean_message_content (snd (check_rate_limit (message_handler b) (msg_from m) (t_rate w)))
           (strip (msg_body m)) (msg_isGroupMsg m) = Inr cleaned"
    and "generate_with_provider (ai_processor b) w
           (history_of (ai_processor b) (msg_from m) @ [user_turn w cleaned])
           (get_context (fst (process_message (message_handler b) m w))) = Some reply"
    and "reply \<noteq> []"
  shows "let H = history_of (ai_processor (handle_message b w m)) (msg_from m)
         in 2 \<le> length H
            \<and> drop (length H - 2) H = [user_turn w cleaned, assistant_turn w reply]"
proof -
  let ?H = "history_of (ai_processor (handle_message b w m)) (msg_from m)"
  have e: "drop (length ?H - 2) ?H = [user_turn w cleaned, assistant_turn w reply]"
    unfolding handle_message_admitted_history [OF assms(2-7)]
    using cut_ends_with [OF assms(1), of "history_of (ai_processor b) (msg_from m)"
        "user_turn w cleaned" "assistant_turn w reply"]
    by (simp add: Let_def)
  have "length (drop (length ?H - 2) ?H) = 2"
    unfolding e by simp
  then have "2 \<le> length ?H" by simp
  with e show ?thesis by (simp add: Let_def)
qed

lemmas ai_eval = generate_with_provider_def generate_with_local_model_def
  generate_with_openai_def history_of_def fresh_ai_def default_bot_def

theorem round_trip_history_witness:
  "2 \<le> max_history_length (ai_processor (default_bot ''local'')) \<and>
   passes_filters default_handler (incoming_message ''A'' ''  hello   there '' False) \<and>
   fst (check_rate_limit default_handler ''A'' 10) \<and>
   process_command (strip ''  hello   there '') ''A'' = None \<and>
   clean_message_content (snd (check_rate_limit default_handler ''A'' 10))
      (strip ''  hello   there '') False = Inr ''hello there'' \<and>
   local_model_reply \<noteq> [] \<and>
   drop (length (history_of (ai_processor (handle_message (default_bot ''local'') (world_at 10)
                    (incoming_message ''A'' ''  hello   there '' False))) ''A'') - 2)
     (history_of (ai_processor (handle_message (default_bot ''local'') (world_at 10)
                    (incoming_message ''A'' ''  hello   there '' False))) ''A'')
     = [user_turn (world_at 10) ''hello there'', assistant_turn (world_at 10) local_model_reply]"
proof -
  let ?b = "default_bot ''local''"
  let ?m = "incoming_message ''A'' ''  hello   there '' False"
  let ?w = "world_at 10"
  have mh: "message_handler ?b = default_handler" by (simp add: default_bot_def)
  have m: "msg_from ?m = ''A''" "msg_body ?m = ''  hello   there ''" "msg_isGroupMsg ?m = False"
    "t_rate ?w = 10"
    by (simp_all add: incoming_message_def world_at_def)
  have 1: "2 \<le> max_history_length (ai_processor ?b)"
    by (simp add: default_bot_def fresh_ai_def)
  have 2: "passes_filters default_handler ?m"
    by (simp add: passes_filters_def default_handler_def incoming_message_def)
  have 3: "fst (check_rate_limit default_handler ''A'' 10)"
    by (simp add: guard_eval default_handler_def)
  have 4: "process_command (strip ''  hello   there '') ''A'' = None"
    by (simp add: guard_eval)
  have 5: "clean_message_content (snd (check_rate_limit default_handler ''A'' 10))
      (strip ''  hello   there '') False = Inr ''hello there''"
    by (simp add: clean_direct strip_def is_space_def)
  have 6: "generate_with_provider (ai_processor ?b) ?w
           (history_of (ai_processor ?b) (msg_from ?m) @ [user_turn ?w ''hello there''])
           (get_context (fst (process_message (message_handler ?b) ?m ?w))) = Some local_model_reply"
    by (simp add: ai_eval)
  have 7: "local_model_reply \<noteq> []"
    by (simp add: local_model_reply_def)
  show ?thesis
    using 1 2 3 4 5 7
      round_trip_history [of ?b ?m ?w "''hello there''" local_model_reply, unfolded mh m, OF 1 [unfolded mh] 2 3 4 5 6 [unfolded mh m] 7]
    by (simp add: Let_def mh m)
qed

text \<open>
  With \<open>max_history_length = 1\<close> the cut keeps the assistant turn only: the history of
  an admitted and answered message does not end with its user turn.
\<close>

theorem round_trip_history_counterexample:
  "passes_filters (message_handler one_turn_bot) (incoming_message ''A'' ''hello'' False) \<and>
   fst (check_rate_limit (message_handler one_turn_bot) ''A'' 10) \<and>
   process_command (strip ''hello'') ''A'' = None \<and>
   clean_message_content (snd (check_rate_limit (message_handler one_turn_bot) ''A'' 10))
      (strip ''hello'') False = Inr ''hello'' \<and>
   fst (generate_response (ai_processor one_turn_bot) (world_at 10) ''hello''
          (get_context (fst (process_message (message_handler one_turn_bot)
             (incoming_message ''A'' ''hello'' False) (world_at 10)))) ''A'') = Some local_model_reply \<and>
   history_of (ai_processor (handle_message one_turn_bot (world_at 10)
                  (incoming_message ''A'' ''hello'' False))) ''A''
     = [assistant_turn (world_at 10) local_model_reply] \<and>
   \<not> (\<exists>older. history_of (ai_processor (handle_message one_turn_bot (world_at 10)
                  (incoming_message ''A'' ''hello'' False))) ''A''
              = older @ [user_turn (world_at 10) ''hello'',
                         assistant_turn (world_at 10) local_model_reply])"
proof -
  let ?b = "one_turn_bot"
  let ?m = "incoming_message ''A'' ''hello'' False"
  let ?w = "world_at 10"
  have mh: "message_handler ?b = default_handler" by (simp add: one_turn_bot_def default_bot_def)
  have m: "msg_from ?m = ''A''" "msg_body ?m = ''hello''" "msg_isGroupMsg ?m = False"
    "t_rate ?w = 10"
    by (simp_all add: incoming_message_def world_at_def)
  have 2: "passes_filters default_handler ?m"
    by (simp add: passes_filters_def default_handler_def incoming_message_def)
  have 3: "fst (check_rate_limit default_handler ''A'' 10)"
    by (simp add: guard_eval default_handler_def)
  have 4: "process_command (strip ''hello'') ''A'' = None"
    by (simp add: guard_eval)
  have 5: "clean_message_content (snd (check_rate_limit default_handler ''A'' 10))
      (strip ''hello'') False = Inr ''hello''"
    by (simp add: clean_direct strip_def is_space_def)
  have 6: "generate_with_provider (ai_processor ?b) ?w
           (history_of (ai_processor ?b) ''A'' @ [user_turn ?w ''hello''])
           (get_context (fst (process_message default_handler ?m ?w))) = Some local_model_reply"
    by (simp add: ai_eval one_turn_bot_def)
  have 7: "local_model_reply \<noteq> []"
    by (simp add: local_model_reply_def)
  have g: "fst (generate_response (ai_processor ?b) ?w ''hello''
          (get_context (fst (process_message default_handler ?m ?w))) ''A'') = Some local_model_reply"
    using 6 7 by (simp add: generate_response_result)
  have H: "history_of (ai_processor (handle_message ?b ?w ?m)) ''A''
     = [assistant_turn ?w local_model_reply]"
    using handle_message_admitted_history [of ?b ?m ?w "''hello''" local_model_reply,
        unfolded mh m, OF 2 3 4 5 6 7]
    by (simp add: one_turn_bot_def default_bot_def fresh_ai_def history_of_def slice_from_def Let_def)
  have N: "\<not> (\<exists>older. history_of (ai_processor (handle_message ?b ?w ?m)) ''A''
              = older @ [user_turn ?w ''hello'', assistant_turn ?w local_model_reply])"
    unfolding H by simp
  show ?thesis
    unfolding mh using 2 3 4 5 g H N by simp
qed

section \<open>Failed generations\<close>

lemmas ai_run = generate_response_def get_conversation_history_def new_list_def
  list_append_def deref_def update_conversation_history_def slice_from_def
  generate_with_provider_def generate_with_openai_def history_of_def
  fresh_ai_def world_replying_def world_at_def user_turn_def assistant_turn_def
  strip_def is_space_def Let_def

text \<open>
  C10. The sender A has had one exchange with the OpenAI provider; then the call fails
  for its next message. \<open>generate_response\<close> returns \<open>None\<close>, and the stored history
  of A has grown by the user turn of that message: the turn was appended to the stored
  list itself.
\<close>

theorem failed_generation_keeps_user_turn:
  "history_of (generate_responses (fresh_ai ''openai'') [(world_replying 1 ''Hi!'', ''hello'')] ''A'') ''A''
     = [user_turn (world_at 1) ''hello'', assistant_turn (world_at 1) ''Hi!''] \<and>
   fst (generate_response
          (generate_responses (fresh_ai ''openai'') [(world_replying 1 ''Hi!'', ''hello'')] ''A'')
          (world_at 2) ''are you there?'' None ''A'') = None \<and>
   history_of (snd (generate_response
          (generate_responses (fresh_ai ''openai'') [(world_replying 1 ''Hi!'', ''hello'')] ''A'')
          (world_at 2) ''are you there?'' None ''A'')) ''A''
     = [user_turn (world_at 1) ''hello'', assistant_turn (world_at 1) ''Hi!'',
        user_turn (world_at 2) ''are you there?'']"
  by (simp add: ai_run)

text \<open>
  C5. With the default \<open>max_history_length\<close> of 10, five exchanges fill the stored
  history of the sender A with 10 turns; the call fails for the sixth message, and the
  stored history then has 11 turns.
\<close>

theorem history_exceeds_cap_after_failed_generation:
  "max_history_length (fresh_ai ''openai'') = 10 \<and>
   length (history_of (generate_responses (fresh_ai ''openai'')
       [(world_replying 1 ''ok'', ''one''), (world_replying 2 ''ok'', ''two''),
        (world_replying 3 ''ok'', ''three''), (world_replying 4 ''ok'', ''four''),
        (world_replying 5 ''ok'', ''five'')] ''A'') ''A'') = 10 \<and>
   fst (generate_response (generate_responses (fresh_ai ''openai'')
       [(world_replying 1 ''ok'', ''one''), (world_replying 2 ''ok'', ''two''),
        (world_replying 3 ''ok'', ''three''), (world_replying 4 ''ok'', ''four''),
        (world_replying 5 ''ok'', ''five'')] ''A'') (world_at 6) ''six'' None ''A'') = None \<and>
   length (history_of (snd (generate_response (generate_responses (fresh_ai ''openai'')
       [(world_replying 1 ''ok'', ''one''), (world_replying 2 ''ok'', ''two''),
        (world_replying 3 ''ok'', ''three''), (world_replying 4 ''ok'', ''four''),
        (world_replying 5 ''ok'', ''five'')] ''A'') (world_at 6) ''six'' None ''A'')) ''A'') = 11"
  by (simp add: ai_run)

section \<open>Thirty-one messages in one minute\<close>

lemma upt30: "[Suc 0..<31] = [1,2,3,4,5,6,7,8,9,10,11,12,13,14,15,16,17,18,19,20,21,22,23,24,25,26,27,28,29,30]"
  by code_simp

lemma thirty_messages:
  "(case process_messages default_handler (scenario 30) of
      (rs, h) \<Rightarrow> (map summary rs, h))
   = (map (\<lambda>i. (True, plain_body i, True)) [1..<31],
      default_handler\<lparr>message_timestamps := [''A'' \<mapsto> map seconds [1..<31]]\<rparr>)"
  by (simp add: scenario_def upt30 seconds_def plain_body_def summary_def default_handler_def
      process_message_def process_message_body_def guard_eval passes_filters_def
      collapse_spaces.simps)


lemma process_messages_append:
  "process_messages h (xs @ ys) =
     (case process_messages h xs of
        (rs, h') \<Rightarrow> (case process_messages h' ys of (rs', h'') \<Rightarrow> (rs @ rs', h'')))"
  by (induction h xs rule: process_messages.induct) (auto split: prod.splits)

lemma scenario_Suc:
  "scenario (Suc n) =
     scenario n @ [(world_at (seconds (Suc n)), incoming_message ''A'' (plain_body (Suc n)) False)]"
  by (simp add: scenario_def)

lemma handle_messages_snoc:
  "handle_messages b (run @ [(w, m)]) = handle_message (handle_messages b run) w m"
  by (induction b run rule: handle_messages.induct) auto

lemma handle_messages_handler:
  "message_handler (handle_messages b run) = snd (process_messages (message_handler b) run)"
proof (induction b run rule: handle_messages.induct)
  case (1 b)
  then show ?case by simp
next
  case (2 b w message rest)
  then show ?case
    by (simp add: handle_message_handler split: prod.splits)
qed

lemma send_message_client:
  "is_connected_flag (snd (send_message c to msg)) = is_connected_flag c \<and>
   client_type (snd (send_message c to msg)) = client_type c"
  by (simp add: send_message_def)

lemma handle_message_config:
  "provider (ai_processor (handle_message b w m)) = provider (ai_processor b) \<and>
   max_history_length (ai_processor (handle_message b w m)) = max_history_length (ai_processor b) \<and>
   is_connected_flag (whatsapp_client (handle_message b w m)) = is_connected_flag (whatsapp_client b) \<and>
   client_type (whatsapp_client (handle_message b w m)) = client_type (whatsapp_client b)"
proof (cases "get_should_respond (fst (process_message (message_handler b) m w))")
  case False
  then show ?thesis by (simp add: handle_message_silent)
next
  case True
  show ?thesis
    unfolding handle_message_responding [OF True]
    by (simp add: generate_response_config send_message_client split: option.splits)
qed

lemma handle_messages_config:
  "provider (ai_processor (handle_messages b run)) = provider (ai_processor b) \<and>
   max_history_length (ai_processor (handle_messages b run)) = max_history_length (ai_processor b) \<and>
   is_connected_flag (whatsapp_client (handle_messages b run)) = is_connected_flag (whatsapp_client b) \<and>
   client_type (whatsapp_client (handle_messages b run)) = client_type (whatsapp_client b)"
proof (induction b run rule: handle_messages.induct)
  case (1 b)
  then show ?case by simp
next
  case (2 b w message rest)
  then show ?case using handle_message_config [of b w message] by simp
qed

text \<open>Message 31 at the handler that has admitted the first thirty.\<close>

lemma message_31:
  "process_message (default_handler\<lparr>message_timestamps := [''A'' \<mapsto> map seconds [1..<31]]\<rparr>)
     (incoming_message ''A'' (plain_body 31) False) (world_at (seconds 31))
   = (Data ((initial_response (incoming_message ''A'' (plain_body 31) False) (world_at (seconds 31)))
              \<lparr>should_respond := True, content := rate_limit_notice\<rparr>),
      default_handler\<lparr>message_timestamps := [''A'' \<mapsto> map seconds [1..<31]]\<rparr>)"
  by (simp add: upt30 seconds_def plain_body_def default_handler_def
      process_message_def process_message_body_def guard_eval)

text \<open>
  C2. The bot with the defaults (30 messages per hour, 10 turns of history) and the
  local provider gets 31 text messages from the sender A, one per second. The handler
  admits the first 30 with their content and a context, and answers message 31 with the
  notice, without a context and without recording its time. The orchestrator passes
  that notice to the AI processor like any content: what it sends for message 31 is the
  response of the provider, not the notice, and the stored history of A then ends with
  a user turn that holds the notice and the assistant turn that answers it.
\<close>

theorem rate_limit_notice_goes_to_the_backend:
  "map summary (fst (process_messages default_handler (scenario 31)))
     = map (\<lambda>i. (True, plain_body i, True)) [1..<31] @ [(True, rate_limit_notice, False)] \<and>
   window (snd (process_messages default_handler (scenario 31))) ''A'' = map seconds [1..<31] \<and>
   outbox (whatsapp_client (handle_messages (default_bot ''local'') (scenario 31)))
     = outbox (whatsapp_client (handle_messages (default_bot ''local'') (scenario 30)))
       @ [(''A'', local_model_reply)] \<and>
   local_model_reply \<noteq> rate_limit_notice \<and>
   drop (length (history_of (ai_processor (handle_messages (default_bot ''local'') (scenario 31))) ''A'') - 2)
     (history_of (ai_processor (handle_messages (default_bot ''local'') (scenario 31))) ''A'')
     = [user_turn (world_at (seconds 31)) rate_limit_notice,
        assistant_turn (world_at (seconds 31)) local_model_reply]"
proof -
  let ?h30 = "default_handler\<lparr>message_timestamps := [''A'' \<mapsto> map seconds [1..<31]]\<rparr>"
  let ?m = "incoming_message ''A'' (plain_body 31) False"
  let ?w = "world_at (seconds 31)"
  let ?b30 = "handle_messages (default_bot ''local'') (scenario 30)"
  let ?r = "Data ((initial_response ?m ?w)\<lparr>should_respond := True, content := rate_limit_notice\<rparr>)"
  obtain rs where run30: "process_messages default_handler (scenario 30) = (rs, ?h30)"
    and rs: "map summary rs = map (\<lambda>i. (True, plain_body i, True)) [1..<31]"
    using thirty_messages by (cases "process_messages default_handler (scenario 30)") auto
  have s31: "scenario 31 = scenario 30 @ [(?w, ?m)]"
    using scenario_Suc [of 30] by simp
  have run31: "process_messages default_handler (scenario 31) = (rs @ [?r], ?h30)"
    unfolding s31
    by (simp only: process_messages_append run30 process_messages.simps message_31 prod.case
        append.simps)
  have sum31: "summary ?r = (True, rate_limit_notice, False)"
    by (simp add: summary_def initial_response_def)
  have a: "map summary (fst (process_messages default_handler (scenario 31)))
     = map (\<lambda>i. (True, plain_body i, True)) [1..<31] @ [(True, rate_limit_notice, False)]"
    unfolding run31 using rs sum31 by simp
  have b: "window (snd (process_messages default_handler (scenario 31))) ''A'' = map seconds [1..<31]"
    unfolding run31 by (simp add: window_def timestamps_of_def)
  have mh: "message_handler ?b30 = ?h30"
    by (simp add: handle_messages_handler default_bot_def run30)
  have conf: "provider (ai_processor ?b30) = ''local''" "max_history_length (ai_processor ?b30) = 10"
    "is_connected_flag (whatsapp_client ?b30)" "client_type (whatsapp_client ?b30) = ''web''"
    using handle_messages_config [of "default_bot ''local''" "scenario 30"]
    by (simp_all add: default_bot_def fresh_ai_def)
  have r: "fst (process_message (message_handler ?b30) ?m ?w) = ?r"
    by (simp only: mh message_31 fst_conv)
  have resp: "get_should_respond (fst (process_message (message_handler ?b30) ?m ?w))"
    unfolding r by simp
  have args: "get_content ?r = rate_limit_notice" "get_context ?r = None"
    by (simp_all add: initial_response_def)
  have sndr: "msg_from ?m = ''A''" by (simp add: incoming_message_def)
  have prov: "generate_with_provider (ai_processor ?b30) ?w
      (history_of (ai_processor ?b30) ''A'' @ [user_turn ?w rate_limit_notice]) None
      = Some local_model_reply"
    by (simp add: generate_with_provider_def generate_with_local_model_def conf)
  have ne: "local_model_reply \<noteq> []" by (simp add: local_model_reply_def)
  have gen: "fst (generate_response (ai_processor ?b30) ?w rate_limit_notice None ''A'')
      = Some local_model_reply"
    using prov ne by (simp add: generate_response_result)
  have step: "handle_messages (default_bot ''local'') (scenario 31) = handle_message ?b30 ?w ?m"
    unfolding s31 by (rule handle_messages_snoc)
  have c: "outbox (whatsapp_client (handle_messages (default_bot ''local'') (scenario 31)))
     = outbox (whatsapp_client ?b30) @ [(''A'', local_model_reply)]"
    unfolding step handle_message_responding(2) [OF resp] r args sndr gen
    by (simp add: send_message_def conf ne)
  have d: "local_model_reply \<noteq> rate_limit_notice"
    by (simp add: local_model_reply_def rate_limit_notice_def)
  have H: "history_of (ai_processor (handle_messages (default_bot ''local'') (scenario 31))) ''A''
      = (let conversation = history_of (ai_processor ?b30) ''A''
               @ [user_turn ?w rate_limit_notice, assistant_turn ?w local_model_reply]
         in if int (length conversation) > 10 then slice_from (- 10) conversation else conversation)"
    unfolding step handle_message_responding(1) [OF resp] r args sndr
    using generate_response_history_success [OF prov ne] by (simp add: conf Let_def)
  have e: "drop (length (history_of (ai_processor (handle_messages (default_bot ''local'') (scenario 31))) ''A'') - 2)
     (history_of (ai_processor (handle_messages (default_bot ''local'') (scenario 31))) ''A'')
     = [user_turn ?w rate_limit_notice, assistant_turn ?w local_model_reply]"
    unfolding H
    using cut_ends_with [of 10 "history_of (ai_processor ?b30) ''A''"
        "user_turn ?w rate_limit_notice" "assistant_turn ?w local_model_reply"]
    by (simp add: Let_def)
  show ?thesis using a b c d e by (intro conjI)
qed

end
